theory Spec2Isabelle
  imports Complex_Main "HOL-Library.Word" "HOL-Library.Signed_Division" "HOL-Library.Log_Nat"
begin

unbundle bit_operations_syntax

section \<open>Machine integers and fault flags (cq\_types.h)\<close>

text \<open>
  The C integer types are words of their width: \<open>+\<close>, \<open>-\<close> and \<open>*\<close> wrap,
  \<open>unat\<close> reads a word as unsigned and \<open>sint\<close> as two's complement.  A pointer
  argument that the source tests against \<open>NULL\<close> is an \<open>option\<close>: \<open>None\<close> is
  the null pointer, \<open>Some v\<close> a pointer to an object holding \<open>v\<close>; a function
  that writes through the pointer returns the new content.
\<close>

type_synonym int32_t = "32 word"
type_synonym uint32_t = "32 word"
type_synonym int64_t = "64 word"
type_synonym uint64_t = "64 word"
type_synonym cq_fixed16_t = "32 word"

record cq_fault_flags_t =
  overflow :: bool
  underflow :: bool
  div_zero :: bool
  range_exceed :: bool
  unfolded_bn :: bool
  asymmetric :: bool
  bound_violation :: bool

definition no_faults :: cq_fault_flags_t where
  "no_faults = \<lparr>overflow = False, underflow = False, div_zero = False,
     range_exceed = False, unfolded_bn = False, asymmetric = False,
     bound_violation = False\<rparr>"

definition cq_has_fatal_fault :: "cq_fault_flags_t \<Rightarrow> bool" where
  "cq_has_fatal_fault f \<longleftrightarrow>
     div_zero f \<or> range_exceed f \<or> unfolded_bn f \<or> asymmetric f \<or> bound_violation f"

text \<open>\<open>cq_fault_merge\<close> ORs the source bit field into the destination.\<close>

definition cq_fault_merge :: "cq_fault_flags_t \<Rightarrow> cq_fault_flags_t \<Rightarrow> cq_fault_flags_t" where
  "cq_fault_merge dst src =
     \<lparr>overflow = overflow dst \<or> overflow src,
      underflow = underflow dst \<or> underflow src,
      div_zero = div_zero dst \<or> div_zero src,
      range_exceed = range_exceed dst \<or> range_exceed src,
      unfolded_bn = unfolded_bn dst \<or> unfolded_bn src,
      asymmetric = asymmetric dst \<or> asymmetric src,
      bound_violation = bound_violation dst \<or> bound_violation src\<rparr>"

section \<open>Overflow proof (cq\_types.h, primitives.c, analyze.c)\<close>

record cq_overflow_proof_t =
  max_weight_mag :: uint32_t
  max_input_mag :: uint32_t
  dot_product_len :: uint32_t
  safety_margin :: uint64_t
  is_safe :: bool

text \<open>
  \<open>cq_overflow_is_safe\<close> (primitives.c): the three fields are widened to 64 bits and
  multiplied there; the product is a \<open>uint64_t\<close>, so it is taken modulo \<open>2^64\<close>.
\<close>

definition cq_overflow_is_safe :: "cq_overflow_proof_t \<Rightarrow> bool" where
  "cq_overflow_is_safe proof =
     (if dot_product_len proof = 0 then True
      else
        let product = (ucast (dot_product_len proof) :: uint64_t)
                      * (ucast (max_weight_mag proof) :: uint64_t)
                      * (ucast (max_input_mag proof) :: uint64_t)
        in product < push_bit 63 1)"

definition UINT64_MAX :: uint64_t where
  "UINT64_MAX = - 1"

text \<open>
  \<open>cq_compute_overflow_proof\<close> (analyze.c).  The result is the returned flag and
  the content of \<open>*proof\<close>; with a null \<open>proof\<close> nothing is written.  The
  \<open>memset\<close> zeroes every field before the three inputs are stored.
\<close>

definition cq_compute_overflow_proof ::
  "uint32_t \<Rightarrow> uint32_t \<Rightarrow> uint32_t \<Rightarrow> cq_overflow_proof_t option
     \<Rightarrow> bool \<times> cq_overflow_proof_t option" where
  "cq_compute_overflow_proof max_weight max_input dot_len proof =
     (case proof of
        None \<Rightarrow> (False, None)
      | Some _ \<Rightarrow>
          let p0 = \<lparr>max_weight_mag = max_weight, max_input_mag = max_input,
                     dot_product_len = dot_len, safety_margin = 0, is_safe = False\<rparr>;
              n = (ucast dot_len :: uint64_t);
              w = (ucast max_weight :: uint64_t);
              x = (ucast max_input :: uint64_t)
          in
            if n = 0 \<or> w = 0 \<or> x = 0 then
              (True, Some (p0\<lparr>safety_margin := push_bit 63 1, is_safe := True\<rparr>))
            else if w > UINT64_MAX div n then
              (False, Some (p0\<lparr>safety_margin := 0, is_safe := False\<rparr>))
            else
              let nw = n * w in
              if x > UINT64_MAX div nw then
                (False, Some (p0\<lparr>safety_margin := 0, is_safe := False\<rparr>))
              else
                let product = nw * x; limit = (push_bit 63 1 :: uint64_t) in
                if product < limit then
                  (True, Some (p0\<lparr>safety_margin := limit - product, is_safe := True\<rparr>))
                else
                  (False, Some (p0\<lparr>safety_margin := 0, is_safe := False\<rparr>)))"


section \<open>Saturation, rounding and Q16.16 division (primitives.c)\<close>

definition INT32_MAX :: int where
  "INT32_MAX = 2147483647"

definition INT32_MIN :: int where
  "INT32_MIN = - 2147483648"

definition CQ_Q16_SHIFT :: nat where
  "CQ_Q16_SHIFT = 16"

text \<open>The flag writes \<open>if (faults) faults->flag = 1\<close>: nothing happens on a null pointer.\<close>

definition set_overflow :: "cq_fault_flags_t option \<Rightarrow> cq_fault_flags_t option" where
  "set_overflow faults = map_option (\<lambda>f. f\<lparr>overflow := True\<rparr>) faults"

definition set_underflow :: "cq_fault_flags_t option \<Rightarrow> cq_fault_flags_t option" where
  "set_underflow faults = map_option (\<lambda>f. f\<lparr>underflow := True\<rparr>) faults"

definition set_div_zero :: "cq_fault_flags_t option \<Rightarrow> cq_fault_flags_t option" where
  "set_div_zero faults = map_option (\<lambda>f. f\<lparr>div_zero := True\<rparr>) faults"

text \<open>
  \<open>cq_clamp32\<close>: the comparisons are signed 64-bit comparisons; the final cast
  \<open>(int32_t)x\<close> keeps the low 32 bits.
\<close>

definition cq_clamp32 ::
  "int64_t \<Rightarrow> cq_fault_flags_t option \<Rightarrow> int32_t \<times> cq_fault_flags_t option" where
  "cq_clamp32 x faults =
     (if sint x > INT32_MAX then (word_of_int INT32_MAX, set_overflow faults)
      else if sint x < INT32_MIN then (word_of_int INT32_MIN, set_underflow faults)
      else (ucast x, faults))"

text \<open>
  C's \<open>/\<close> and \<open>%\<close> on \<open>int64_t\<close> truncate towards zero: \<open>sdiv\<close> and \<open>smod\<close>
  on the signed values, the result stored back in 64 bits.
\<close>

definition div64 :: "int64_t \<Rightarrow> int64_t \<Rightarrow> int64_t" where
  "div64 a b = word_of_int (sint a sdiv sint b)"

definition mod64 :: "int64_t \<Rightarrow> int64_t \<Rightarrow> int64_t" where
  "mod64 a b = word_of_int (sint a smod sint b)"

definition cq_round_shift_rne ::
  "int64_t \<Rightarrow> uint32_t \<Rightarrow> cq_fault_flags_t option \<Rightarrow> int32_t \<times> cq_fault_flags_t option" where
  "cq_round_shift_rne x shift faults =
     (if shift > 62 then (0, set_overflow faults)
      else if shift = 0 then cq_clamp32 x faults
      else
        let divisor = (push_bit (unat shift) 1 :: int64_t);
            half = div64 divisor 2;
            quot = div64 x divisor;
            remainder = mod64 x divisor;
            quot' =
              (if half <s remainder then quot + 1
               else if remainder <s - half then quot - 1
               else if remainder = half then quot + (quot AND 1)
               else if remainder = - half then quot - (quot AND 1)
               else quot)
        in cq_clamp32 quot' faults)"

text \<open>
  \<open>cq_div_q16\<close>: \<open>a\<close> is widened (sign-extended) to 64 bits and shifted left by
  16; \<open>b\<close> is widened for the division.  In \<open>half_b\<close> the negation \<open>-b\<close> and the
  division by 2 are \<open>int\<close> (32-bit) operations, widened afterwards.
\<close>

definition div32 :: "int32_t \<Rightarrow> int32_t \<Rightarrow> int32_t" where
  "div32 a b = word_of_int (sint a sdiv sint b)"

definition cq_div_q16 ::
  "cq_fixed16_t \<Rightarrow> cq_fixed16_t \<Rightarrow> cq_fault_flags_t option
     \<Rightarrow> cq_fixed16_t \<times> cq_fault_flags_t option" where
  "cq_div_q16 a b faults =
     (if b = 0 then (0, set_div_zero faults)
      else
        let wide_a = push_bit CQ_Q16_SHIFT (scast a :: int64_t);
            quot = div64 wide_a (scast b);
            rem = mod64 wide_a (scast b);
            half_b = (scast (if 0 <s b then div32 b 2 else div32 (- b) 2) :: int64_t);
            abs_rem = (if 0 \<le>s rem then rem else - rem);
            quot' =
              (if half_b <s abs_rem then quot + (if 0 \<le>s quot then 1 else - 1)
               else if abs_rem = half_b then
                 (if quot AND 1 \<noteq> 0 then quot + (if 0 \<le>s quot then 1 else - 1) else quot)
               else quot)
        in cq_clamp32 quot' faults)"

section \<open>Reference: rounding a quotient to nearest, ties to even\<close>

text \<open>
  The integer nearest to the rational \<open>a / b\<close> for \<open>b > 0\<close>, the even one of the
  two when \<open>a / b\<close> lies exactly half way.  Written from the words of the
  specification, with floor division, to compare the code against.
\<close>

definition round_half_even :: "int \<Rightarrow> int \<Rightarrow> int" where
  "round_half_even a b =
     (let f = a div b; r = a mod b in
      if 2 * r < b then f
      else if 2 * r > b then f + 1
      else if even f then f else f + 1)"

text \<open>Saturation of an integer to the \<open>int32_t\<close> range.\<close>

definition saturate32 :: "int \<Rightarrow> int32_t" where
  "saturate32 q = word_of_int (max INT32_MIN (min INT32_MAX q))"

text \<open>
  The rounding step of \<open>cq_round_shift_rne\<close> on mathematical integers, with C's
  truncating division: the bridge between the 64-bit code and \<open>round_half_even\<close>.
\<close>

definition rne_trunc :: "int \<Rightarrow> int \<Rightarrow> int" where
  "rne_trunc X d =
     (let h = d sdiv 2; q = X sdiv d; r = X smod d in
      if r > h then q + 1
      else if r < - h then q - 1
      else if r = h then q + (q mod 2)
      else if r = - h then q - (q mod 2)
      else q)"

section \<open>Floating-point values\<close>

text \<open>
  Three views of the floating-point values are used, each where it is exact.
  \<^item> Where a function only compares and copies values that may be anything
    (the samples of a tensor, the \<open>double\<close> fields of the verifier and of the
    certificate), a value is an \<open>ieee\<close>: a finite number, an infinity or NaN,
    with the comparisons of IEEE 754, which are false on NaN.
  \<^item> Where the rounding of the arithmetic decides the result (the coverage
    ratio, the index of the tenth percentile), single precision is modelled
    bit by bit.
  \<^item> Elsewhere a finite \<open>float\<close> or \<open>double\<close> is the real number it denotes and
    the arithmetic is written with the real operations.
\<close>

datatype ieee = Finite real | PosInf | NegInf | NaN

type_synonym sample = ieee
type_synonym double = ieee

fun isnan :: "sample \<Rightarrow> bool" where
  "isnan NaN = True"
| "isnan _ = False"

fun isinf :: "sample \<Rightarrow> bool" where
  "isinf PosInf = True"
| "isinf NegInf = True"
| "isinf _ = False"

text \<open>The comparisons \<open>a > b\<close> and \<open>a \<le> b\<close> of IEEE 754 values.\<close>

fun ieee_gt :: "ieee \<Rightarrow> ieee \<Rightarrow> bool" where
  "ieee_gt NaN _ = False"
| "ieee_gt _ NaN = False"
| "ieee_gt (Finite x) (Finite y) = (x > y)"
| "ieee_gt (Finite _) PosInf = False"
| "ieee_gt (Finite _) NegInf = True"
| "ieee_gt PosInf PosInf = False"
| "ieee_gt PosInf (Finite _) = True"
| "ieee_gt PosInf NegInf = True"
| "ieee_gt NegInf _ = False"


definition FLT_MAX :: real where
  "FLT_MAX = 340282346638528859811704183484516925440"

subsection \<open>Single precision, bit by bit\<close>

text \<open>
  A \<open>float\<close> of IEEE 754 binary32: \<open>F32 s m e\<close> is the finite number
  \<open>(-1)^s * m * 2^e\<close> (so \<open>F32 True 0 e\<close> is the negative zero), \<open>F32_inf s\<close> an
  infinity with sign \<open>s\<close>, \<open>F32_nan\<close> a NaN.  A finite number of the format has
  \<open>m < 2^24\<close> and \<open>- 149 \<le> e\<close>, and is below \<open>2^128\<close>; several pairs \<open>(m, e)\<close>
  denote the same number, and the operations depend on the number only.
\<close>

datatype binary32 = F32 bool nat int | F32_inf bool | F32_nan

text \<open>
  Rounding of the exact nonzero result \<open>(-1)^s * m * 2^e\<close> to the format, to
  nearest, ties to even: the low bits beyond 24 significant bits, or below the
  bit of weight \<open>2^-149\<close>, are rounded away; a rounded result of \<open>2^128\<close> or more
  is the infinity.
\<close>

definition round_f32 :: "bool \<Rightarrow> nat \<Rightarrow> int \<Rightarrow> binary32" where
  "round_f32 s m e =
     (let surplus = max (bitlen (int m) - 24) (- 149 - e);
          m' = (if surplus \<le> 0 then int m else round_half_even (int m) (2 ^ nat surplus));
          e' = (if surplus \<le> 0 then e else e + surplus)
      in if bitlen m' + e' > 128 then F32_inf s else F32 s (nat m') e')"

text \<open>The integer \<open>(-1)^s * m * 2^(e - e0)\<close>, for \<open>e0 \<le> e\<close>.\<close>

definition scaled :: "bool \<Rightarrow> nat \<Rightarrow> int \<Rightarrow> int \<Rightarrow> int" where
  "scaled s m e e0 = (if s then - 1 else 1) * int m * 2 ^ nat (e - e0)"

fun f32_isnan :: "binary32 \<Rightarrow> bool" where
  "f32_isnan F32_nan = True"
| "f32_isnan _ = False"

fun f32_is_zero :: "binary32 \<Rightarrow> bool" where
  "f32_is_zero (F32 s m e) = (m = 0)"
| "f32_is_zero _ = False"

fun f32_neg :: "binary32 \<Rightarrow> binary32" where
  "f32_neg (F32 s m e) = F32 (\<not> s) m e"
| "f32_neg (F32_inf s) = F32_inf (\<not> s)"
| "f32_neg F32_nan = F32_nan"

fun fabsf :: "binary32 \<Rightarrow> binary32" where
  "fabsf (F32 s m e) = F32 False m e"
| "fabsf (F32_inf s) = F32_inf False"
| "fabsf F32_nan = F32_nan"

text \<open>
  \<open>a + b\<close>: the exact sum, rounded.  An exact sum of zero is \<open>+0\<close>, except that
  \<open>(-0) + (-0)\<close> is \<open>-0\<close>; infinities of opposite sign add to NaN.
\<close>

fun f32_add :: "binary32 \<Rightarrow> binary32 \<Rightarrow> binary32" where
  "f32_add F32_nan _ = F32_nan"
| "f32_add _ F32_nan = F32_nan"
| "f32_add (F32_inf s) (F32_inf t) = (if s = t then F32_inf s else F32_nan)"
| "f32_add (F32_inf s) (F32 _ _ _) = F32_inf s"
| "f32_add (F32 _ _ _) (F32_inf t) = F32_inf t"
| "f32_add (F32 s m e) (F32 t n f) =
     (let e0 = min e f;
          d = scaled s m e e0 + scaled t n f e0
      in if d = 0 then F32 (m = 0 \<and> n = 0 \<and> s \<and> t) 0 e0
         else round_f32 (d < 0) (nat \<bar>d\<bar>) e0)"

text \<open>\<open>a - b\<close>\<close>

definition f32_sub :: "binary32 \<Rightarrow> binary32 \<Rightarrow> binary32" where
  "f32_sub a b = f32_add a (f32_neg b)"

text \<open>
  \<open>a / b\<close>: the exact quotient, rounded.  The quotient of the mantissas is
  computed to at least 26 bits, with one more bit that records whether
  anything is left below them, which is all the rounding to 24 bits looks at.
  A nonzero number divided by a zero is an infinity, \<open>0 / 0\<close> and
  \<open>inf / inf\<close> are NaN.
\<close>

fun f32_div :: "binary32 \<Rightarrow> binary32 \<Rightarrow> binary32" where
  "f32_div F32_nan _ = F32_nan"
| "f32_div _ F32_nan = F32_nan"
| "f32_div (F32_inf s) (F32_inf t) = F32_nan"
| "f32_div (F32_inf s) (F32 t _ _) = F32_inf (s \<noteq> t)"
| "f32_div (F32 s _ _) (F32_inf t) = F32 (s \<noteq> t) 0 0"
| "f32_div (F32 s m e) (F32 t n f) =
     (if n = 0 then (if m = 0 then F32_nan else F32_inf (s \<noteq> t))
      else if m = 0 then F32 (s \<noteq> t) 0 0
      else
        let k = nat (max 0 (bitlen (int n) - bitlen (int m) + 26));
            q = (m * 2 ^ k) div n;
            sticky = (if (m * 2 ^ k) mod n = 0 then 0 else 1)
        in round_f32 (s \<noteq> t) (2 * q + sticky) (e - f - int k - 1))"

text \<open>The comparisons \<open>a < b\<close> and \<open>a \<le> b\<close>, false when an operand is NaN.\<close>

fun f32_lt :: "binary32 \<Rightarrow> binary32 \<Rightarrow> bool" where
  "f32_lt F32_nan _ = False"
| "f32_lt _ F32_nan = False"
| "f32_lt (F32_inf s) (F32_inf t) = (s \<and> \<not> t)"
| "f32_lt (F32_inf s) (F32 _ _ _) = s"
| "f32_lt (F32 _ _ _) (F32_inf t) = (\<not> t)"
| "f32_lt (F32 s m e) (F32 t n f) = (scaled s m e (min e f) < scaled t n f (min e f))"

fun f32_le :: "binary32 \<Rightarrow> binary32 \<Rightarrow> bool" where
  "f32_le F32_nan _ = False"
| "f32_le _ F32_nan = False"
| "f32_le (F32_inf s) (F32_inf t) = (s \<or> \<not> t)"
| "f32_le (F32_inf s) (F32 _ _ _) = s"
| "f32_le (F32 _ _ _) (F32_inf t) = (\<not> t)"
| "f32_le (F32 s m e) (F32 t n f) = (scaled s m e (min e f) \<le> scaled t n f (min e f))"

text \<open>The literals \<open>0.0f\<close>, \<open>1.0f\<close> and \<open>1e-7f\<close> (the float nearest to \<open>10^-7\<close>).\<close>

definition f32_zero :: binary32 where
  "f32_zero = F32 False 0 0"

definition f32_one :: binary32 where
  "f32_one = F32 False 1 0"

definition f32_1e_7 :: binary32 where
  "f32_1e_7 = F32 False 14073749 (- 47)"

section \<open>Calibrator (calibrate.h, calibrate.c)\<close>

text \<open>
  Field names are global in HOL: where several C structs have a field of the
  same name, the fields of all but one carry a prefix naming their struct.
\<close>

record cq_calibrate_config_t =
  coverage_min_threshold :: binary32
  coverage_p10_threshold :: binary32
  degenerate_epsilon :: binary32
  min_samples :: uint32_t

text \<open>
  The type \<open>'f\<close> of the \<open>float\<close> fields of \<open>cq_tensor_stats_t\<close> is the view taken
  of them: \<open>binary32\<close> in \<open>cq_tensor_compute_coverage\<close>, whose subtractions and
  division round, \<open>real\<close> in the functions that only compare and copy finite
  values.
\<close>

record 'f cq_tensor_stats_t =
  tensor_id :: uint32_t
  ts_layer_index :: uint32_t
  min_observed :: 'f
  max_observed :: 'f
  min_safe :: 'f
  max_safe :: 'f
  coverage_ratio :: 'f
  is_degenerate :: bool
  range_veto :: bool

definition cq_tensor_stats_init ::
  "real cq_tensor_stats_t option \<Rightarrow> uint32_t \<Rightarrow> uint32_t \<Rightarrow> real \<Rightarrow> real
     \<Rightarrow> real cq_tensor_stats_t option" where
  "cq_tensor_stats_init stats tid lidx lo hi =
     (case stats of
        None \<Rightarrow> None
      | Some _ \<Rightarrow>
          Some \<lparr>tensor_id = tid, ts_layer_index = lidx,
                min_observed = FLT_MAX, max_observed = - FLT_MAX,
                min_safe = lo, max_safe = hi,
                coverage_ratio = 0, is_degenerate = False, range_veto = False\<rparr>)"

text \<open>One iteration of the update loop: a NaN or infinite value is skipped.\<close>

fun observe :: "real cq_tensor_stats_t \<Rightarrow> sample \<Rightarrow> real cq_tensor_stats_t" where
  "observe s (Finite v) =
     (let s1 = (if v < min_observed s then s\<lparr>min_observed := v\<rparr> else s)
      in if v > max_observed s1 then s1\<lparr>max_observed := v\<rparr> else s1)"
| "observe s _ = s"

text \<open>
  \<open>cq_tensor_stats_update\<close>: the array \<open>tensor\<close> of length \<open>n\<close> is a list, a null
  array is \<open>None\<close>; the loop is a left fold over the elements.
\<close>

definition cq_tensor_stats_update ::
  "real cq_tensor_stats_t option \<Rightarrow> sample list option
     \<Rightarrow> real cq_tensor_stats_t option" where
  "cq_tensor_stats_update stats tensor =
     (case (stats, tensor) of
        (Some s, Some vs) \<Rightarrow> (if length vs = 0 then Some s else Some (foldl observe s vs))
      | _ \<Rightarrow> stats)"

definition cq_tensor_stats_update_single ::
  "real cq_tensor_stats_t option \<Rightarrow> sample \<Rightarrow> real cq_tensor_stats_t option" where
  "cq_tensor_stats_update_single stats v =
     (case stats of
        None \<Rightarrow> None
      | Some s \<Rightarrow> (if isnan v \<or> isinf v then Some s else Some (observe s v)))"

text \<open>
  \<open>cq_tensor_compute_coverage\<close>.  The operands are \<open>float\<close>s, the two differences
  are assigned to \<open>float\<close> variables and the quotient to a \<open>float\<close> field: each
  is the correctly rounded single-precision result.  Besides the new content of
  \<open>*stats\<close> the model returns the denominators of the divisions the call
  executed, in order (at most one).
\<close>

text \<open>\<open>float epsilon = (config != NULL) ? config->degenerate_epsilon : 1e-7f\<close>\<close>

definition epsilon_of :: "cq_calibrate_config_t option \<Rightarrow> binary32" where
  "epsilon_of config =
     (case config of Some c \<Rightarrow> degenerate_epsilon c | None \<Rightarrow> f32_1e_7)"

definition cq_tensor_compute_coverage ::
  "binary32 cq_tensor_stats_t option \<Rightarrow> cq_calibrate_config_t option
     \<Rightarrow> binary32 cq_tensor_stats_t option \<times> binary32 list" where
  "cq_tensor_compute_coverage stats config =
     (case stats of
        None \<Rightarrow> (None, [])
      | Some s \<Rightarrow>
          let epsilon = epsilon_of config;
              observed_range = f32_sub (max_observed s) (min_observed s);
              safe_range = f32_sub (max_safe s) (min_safe s)
          in
            if f32_lt (fabsf observed_range) epsilon then
              (Some (s\<lparr>is_degenerate := True, coverage_ratio := f32_one\<rparr>), [])
            else if f32_lt (fabsf safe_range) epsilon then
              (Some (s\<lparr>is_degenerate := True, coverage_ratio := f32_one\<rparr>), [])
            else
              (Some (s\<lparr>is_degenerate := False,
                       coverage_ratio := f32_div observed_range safe_range\<rparr>),
               [safe_range]))"

definition cq_tensor_check_range_veto ::
  "real cq_tensor_stats_t option \<Rightarrow> bool \<times> real cq_tensor_stats_t option" where
  "cq_tensor_check_range_veto stats =
     (case stats of
        None \<Rightarrow> (False, None)
      | Some s \<Rightarrow>
          if min_observed s < min_safe s \<or> max_observed s > max_safe s
          then (True, Some (s\<lparr>range_veto := True\<rparr>))
          else (False, Some (s\<lparr>range_veto := False\<rparr>)))"

text \<open>
  The calls a driver can make on a tensor's statistics between initialisation
  and finalisation, and their effect in sequence.
\<close>

datatype stats_call = Update "sample list option" | Update_single sample

fun run_call ::
  "real cq_tensor_stats_t option \<Rightarrow> stats_call \<Rightarrow> real cq_tensor_stats_t option" where
  "run_call stats (Update tensor) = cq_tensor_stats_update stats tensor"
| "run_call stats (Update_single v) = cq_tensor_stats_update_single stats v"

fun samples_of :: "stats_call \<Rightarrow> sample list" where
  "samples_of (Update None) = []"
| "samples_of (Update (Some vs)) = vs"
| "samples_of (Update_single v) = [v]"

definition is_finite :: "sample \<Rightarrow> bool" where
  "is_finite v \<longleftrightarrow> \<not> isnan v \<and> \<not> isinf v"

definition ex_stats :: "real \<Rightarrow> real \<Rightarrow> real \<Rightarrow> real \<Rightarrow> real cq_tensor_stats_t" where
  "ex_stats lo_obs hi_obs lo hi = \<lparr>tensor_id = 0, ts_layer_index = 0,
     min_observed = lo_obs, max_observed = hi_obs, min_safe = lo, max_safe = hi,
     coverage_ratio = 0, is_degenerate = False, range_veto = False\<rparr>"

text \<open>
  The same statistics as single-precision values, and a configuration with the
  default thresholds \<open>0.90f\<close> and \<open>0.95f\<close> and a given \<open>degenerate_epsilon\<close>.
\<close>

definition ex_stats32 ::
  "binary32 \<Rightarrow> binary32 \<Rightarrow> binary32 \<Rightarrow> binary32 \<Rightarrow> binary32 cq_tensor_stats_t" where
  "ex_stats32 lo_obs hi_obs lo hi = \<lparr>tensor_id = 0, ts_layer_index = 0,
     min_observed = lo_obs, max_observed = hi_obs, min_safe = lo, max_safe = hi,
     coverage_ratio = f32_zero, is_degenerate = False, range_veto = False\<rparr>"

definition ex_config :: "binary32 \<Rightarrow> cq_calibrate_config_t" where
  "ex_config eps = \<lparr>coverage_min_threshold = F32 False 15099494 (- 24),
     coverage_p10_threshold = F32 False 15938355 (- 24),
     degenerate_epsilon = eps, min_samples = 100\<rparr>"

section \<open>Verifier (verify.h, verify.c)\<close>

definition CQ_ERROR_NULL_POINTER :: int where
  "CQ_ERROR_NULL_POINTER = - 1"

definition CQ_FAULT_BOUND_VIOLATION :: int where
  "CQ_FAULT_BOUND_VIOLATION = 64"

record cq_layer_comparison_t =
  lc_layer_index :: uint32_t
  lc_sample_count :: uint32_t
  error_max_measured :: double
  error_mean_measured :: double
  error_std_measured :: double
  error_bound_theoretical :: double
  error_sum :: double
  error_sum_sq :: double
  bound_satisfied :: bool

record cq_verification_report_t =
  verification_set_hash :: "8 word list"
  sample_count :: uint32_t
  layer_count :: uint32_t
  total_error_theoretical :: double
  total_error_max_measured :: double
  total_error_mean :: double
  total_error_std :: double
  total_error_sum :: double
  total_error_sum_sq :: double
  all_bounds_satisfied :: bool
  total_bound_satisfied :: bool
  layers :: "cq_layer_comparison_t list option"
  vr_faults :: cq_fault_flags_t

record cq_verification_digest_t =
  vd_verification_set_hash :: "8 word list"
  vd_sample_count :: uint32_t
  layers_passed :: uint32_t
  vd_total_error_theoretical :: double
  vd_total_error_max_measured :: double
  bounds_satisfied :: "8 word"

text \<open>
  \<open>cq_verify_check_bounds\<close>: the return code, the new \<open>*layer\<close> and the new
  \<open>*faults\<close>.
\<close>

definition cq_verify_check_bounds ::
  "cq_layer_comparison_t option \<Rightarrow> cq_fault_flags_t option
     \<Rightarrow> int \<times> cq_layer_comparison_t option \<times> cq_fault_flags_t option" where
  "cq_verify_check_bounds layer flt =
     (case (layer, flt) of
        (Some l, Some f) \<Rightarrow>
          if ieee_gt (error_max_measured l) (error_bound_theoretical l)
          then (CQ_FAULT_BOUND_VIOLATION, Some (l\<lparr>bound_satisfied := False\<rparr>),
                Some (f\<lparr>bound_violation := True\<rparr>))
          else (0, Some (l\<lparr>bound_satisfied := True\<rparr>), Some f)
      | _ \<Rightarrow> (CQ_ERROR_NULL_POINTER, layer, flt))"

text \<open>
  The layer loop of \<open>cq_verify_check_all_bounds\<close> over a non-null array: the
  state is the fault flags, \<open>all_bounds_satisfied\<close> and \<open>result\<close>; the layers are
  rewritten in place.  A null pointer cannot come back from
  \<open>cq_verify_check_bounds\<close> here, since both arguments are non-null; the last
  equation-branch keeps the model total.
\<close>

fun check_layers ::
  "cq_layer_comparison_t list \<Rightarrow> cq_fault_flags_t \<Rightarrow> bool \<Rightarrow> int
     \<Rightarrow> cq_layer_comparison_t list \<times> cq_fault_flags_t \<times> bool \<times> int" where
  "check_layers [] f ok result = ([], f, ok, result)"
| "check_layers (l # ls) f ok result =
     (case cq_verify_check_bounds (Some l) (Some f) of
        (layer_result, Some l', Some f') \<Rightarrow>
          (let ok' = (if layer_result \<noteq> 0 then False else ok);
               result' = (if layer_result \<noteq> 0 then layer_result else result);
               (ls', f'', ok'', result'') = check_layers ls f' ok' result'
           in (l' # ls', f'', ok'', result''))
      | _ \<Rightarrow> (l # ls, f, ok, result))"

text \<open>
  \<open>cq_verify_check_all_bounds\<close>.  The array \<open>report->layers\<close> holds
  \<open>report->layer_count\<close> comparisons; the loop visits the first \<open>layer_count\<close>
  of them.  With a null array and a positive count the function returns from
  inside the loop, after \<open>all_bounds_satisfied\<close> was set and before the total
  bound is looked at.
\<close>

definition cq_verify_check_all_bounds ::
  "cq_verification_report_t option \<Rightarrow> cq_fault_flags_t option
     \<Rightarrow> int \<times> cq_verification_report_t option \<times> cq_fault_flags_t option" where
  "cq_verify_check_all_bounds report flt =
     (case (report, flt) of
        (Some r, Some f) \<Rightarrow>
          let r1 = r\<lparr>all_bounds_satisfied := True\<rparr>;
              n = unat (layer_count r)
          in
            (case layers r of
               None \<Rightarrow>
                 if 0 < n then (CQ_ERROR_NULL_POINTER, Some r1, Some f)
                 else
                   (if ieee_gt (total_error_max_measured r1) (total_error_theoretical r1) then
                      let f2 = f\<lparr>bound_violation := True\<rparr> in
                      (CQ_FAULT_BOUND_VIOLATION,
                       Some (r1\<lparr>total_bound_satisfied := False,
                                 vr_faults := cq_fault_merge (vr_faults r1) f2\<rparr>),
                       Some f2)
                    else
                      (0, Some (r1\<lparr>total_bound_satisfied := True,
                                     vr_faults := cq_fault_merge (vr_faults r1) f\<rparr>),
                       Some f))
             | Some ls \<Rightarrow>
                 let (ls', f1, ok, result) = check_layers (take n ls) f True 0;
                     r2 = r1\<lparr>layers := Some (ls' @ drop n ls), all_bounds_satisfied := ok\<rparr>
                 in
                   if ieee_gt (total_error_max_measured r2) (total_error_theoretical r2) then
                     let f2 = f1\<lparr>bound_violation := True\<rparr> in
                     (CQ_FAULT_BOUND_VIOLATION,
                      Some (r2\<lparr>total_bound_satisfied := False,
                                vr_faults := cq_fault_merge (vr_faults r2) f2\<rparr>),
                      Some f2)
                   else
                     (result, Some (r2\<lparr>total_bound_satisfied := True,
                                        vr_faults := cq_fault_merge (vr_faults r2) f1\<rparr>),
                      Some f1))
      | _ \<Rightarrow> (CQ_ERROR_NULL_POINTER, report, flt))"

text \<open>
  \<open>cq_verification_digest_generate\<close>: the counting loop, then the digest.  The
  \<open>memset\<close> clears the digest before its fields are written.
\<close>

fun count_passed :: "cq_layer_comparison_t list \<Rightarrow> uint32_t \<Rightarrow> uint32_t" where
  "count_passed [] c = c"
| "count_passed (l # ls) c = count_passed ls (if bound_satisfied l then c + 1 else c)"









section \<open>Analyzer (analyze.h, analyze.c)\<close>

record cq_range_t =
  min_val :: real
  max_val :: real

record cq_layer_contract_t =
  layer_index :: uint32_t
  layer_type :: uint32_t
  fan_in :: uint32_t
  fan_out :: uint32_t
  weight_range :: cq_range_t
  input_range :: cq_range_t
  output_range :: cq_range_t
  amp_factor :: real
  weight_error_contrib :: real
  bias_error_contrib :: real
  projection_error :: real
  local_error_sum :: real
  input_error_bound :: real
  output_error_bound :: real
  overflow_proof :: cq_overflow_proof_t
  is_valid :: bool

record cq_analysis_ctx_t =
  entry_error :: real
  input_scale_exp :: "8 word"
  ctx_layer_count :: uint32_t
  ctx_layers :: "cq_layer_contract_t list option"
  total_error_bound :: real
  is_complete :: bool
  ctx_is_valid :: bool
  ctx_faults :: cq_fault_flags_t

definition zero_range :: cq_range_t where
  "zero_range = \<lparr>min_val = 0, max_val = 0\<rparr>"

definition zero_proof :: cq_overflow_proof_t where
  "zero_proof = \<lparr>max_weight_mag = 0, max_input_mag = 0, dot_product_len = 0,
     safety_margin = 0, is_safe = False\<rparr>"

text \<open>\<open>cq_layer_contract_init\<close>: everything zeroed, then the five assignments.\<close>

definition cq_layer_contract_init ::
  "cq_layer_contract_t option \<Rightarrow> uint32_t \<Rightarrow> uint32_t \<Rightarrow> uint32_t \<Rightarrow> uint32_t
     \<Rightarrow> cq_layer_contract_t option" where
  "cq_layer_contract_init contract idx ty fin fout =
     (case contract of
        None \<Rightarrow> None
      | Some _ \<Rightarrow>
          Some \<lparr>layer_index = idx, layer_type = ty, fan_in = fin, fan_out = fout,
                weight_range = zero_range, input_range = zero_range, output_range = zero_range,
                amp_factor = 1,
                weight_error_contrib = 0, bias_error_contrib = 0, projection_error = 0,
                local_error_sum = 0, input_error_bound = 0, output_error_bound = 0,
                overflow_proof = zero_proof, is_valid = False\<rparr>)"

text \<open>
  \<open>cq_compute_error_contributions\<close>.  The function has the weight scale and
  the output scale as parameters and no input scale; the bias term divides by
  \<open>weight_scale * weight_scale\<close>.
\<close>

definition cq_compute_error_contributions ::
  "cq_layer_contract_t option \<Rightarrow> real \<Rightarrow> real \<Rightarrow> real \<Rightarrow> cq_layer_contract_t option" where
  "cq_compute_error_contributions contract weight_scale output_scale max_input_norm =
     (case contract of
        None \<Rightarrow> None
      | Some c \<Rightarrow>
          if weight_scale \<le> 0 \<or> output_scale \<le> 0 then Some c
          else
            let c1 = c\<lparr>weight_error_contrib := (0.5 / weight_scale) * max_input_norm\<rparr>;
                c2 = c1\<lparr>bias_error_contrib := 0.5 / (weight_scale * weight_scale)\<rparr>;
                c3 = c2\<lparr>projection_error := 0.5 / output_scale\<rparr>
            in Some (c3\<lparr>local_error_sum := weight_error_contrib c3 + bias_error_contrib c3
                                              + projection_error c3\<rparr>))"

definition cq_apply_error_recurrence ::
  "cq_layer_contract_t option \<Rightarrow> real \<Rightarrow> cq_layer_contract_t option" where
  "cq_apply_error_recurrence contract eps =
     (case contract of
        None \<Rightarrow> None
      | Some c \<Rightarrow>
          let c1 = c\<lparr>input_error_bound := eps\<rparr>;
              c2 = c1\<lparr>output_error_bound := amp_factor c1 * eps + local_error_sum c1\<rparr>
          in Some (c2\<lparr>is_valid := True\<rparr>))"

text \<open>
  \<open>cq_compute_entry_error\<close>: \<open>0.5 / (double)(1LL << input_scale_exp)\<close>, for an
  exponent from 0 to 62 (the shift is undefined in C outside 0..63).
\<close>

definition cq_compute_entry_error :: "8 word \<Rightarrow> real" where
  "cq_compute_entry_error input_exp =
     0.5 / real_of_int (sint (push_bit (nat (sint input_exp)) (1 :: int64_t)))"

text \<open>
  \<open>cq_compute_total_error\<close>.  The array \<open>ctx->layers\<close> holds \<open>ctx->layer_count\<close>
  contracts; the validity loop stops at the first invalid one.
\<close>

fun all_valid :: "cq_layer_contract_t list \<Rightarrow> bool" where
  "all_valid [] = True"
| "all_valid (c # cs) = (if \<not> is_valid c then False else all_valid cs)"

definition cq_compute_total_error :: "cq_analysis_ctx_t option \<Rightarrow> int \<times> cq_analysis_ctx_t option" where
  "cq_compute_total_error ctx =
     (case ctx of
        None \<Rightarrow> (CQ_ERROR_NULL_POINTER, None)
      | Some c \<Rightarrow>
          (case ctx_layers c of
             None \<Rightarrow>
               (0, Some (c\<lparr>total_error_bound := entry_error c, is_complete := True,
                            ctx_is_valid := True\<rparr>))
           | Some ls \<Rightarrow>
               if ctx_layer_count c = 0 then
                 (0, Some (c\<lparr>total_error_bound := entry_error c, is_complete := True,
                              ctx_is_valid := True\<rparr>))
               else
                 let n = unat (ctx_layer_count c) in
                 (0, Some (c\<lparr>total_error_bound := output_error_bound (ls ! (n - 1)),
                              ctx_is_valid := all_valid (take n ls),
                              is_complete := True\<rparr>))))"

text \<open>
  The driver's loop over a chain of layers (as in the repository's tests):
  layer 0 receives the entry error, every later layer the output bound of its
  predecessor.
\<close>

fun propagate :: "real \<Rightarrow> cq_layer_contract_t list \<Rightarrow> cq_layer_contract_t list" where
  "propagate eps [] = []"
| "propagate eps (c # cs) =
     (case cq_apply_error_recurrence (Some c) eps of
        Some c' \<Rightarrow> c' # propagate (output_error_bound c') cs
      | None \<Rightarrow> c # cs)"

text \<open>
  The analysis of a chain: a context with entry error \<open>eps0\<close> over the
  propagated contracts, finalised by \<open>cq_compute_total_error\<close>; \<open>chain_total\<close>
  is the resulting \<open>total_error_bound\<close>.
\<close>

definition chain_ctx :: "real \<Rightarrow> cq_layer_contract_t list \<Rightarrow> cq_analysis_ctx_t" where
  "chain_ctx eps0 cs =
     \<lparr>entry_error = eps0, input_scale_exp = 0,
      ctx_layer_count = of_nat (length cs), ctx_layers = Some (propagate eps0 cs),
      total_error_bound = 0, is_complete = False, ctx_is_valid = False,
      ctx_faults = no_faults\<rparr>"

definition chain_total :: "real \<Rightarrow> cq_layer_contract_t list \<Rightarrow> real" where
  "chain_total eps0 cs =
     (case snd (cq_compute_total_error (Some (chain_ctx eps0 cs))) of
        Some c \<Rightarrow> total_error_bound c
      | None \<Rightarrow> 0)"

text \<open>
  A contract as \<open>cq_layer_contract_init\<close> leaves it, with the norm then set to
  \<open>a\<close> and the local error sum to \<open>l\<close>.
\<close>

definition ex_contract :: "real \<Rightarrow> real \<Rightarrow> cq_layer_contract_t" where
  "ex_contract a l =
     \<lparr>layer_index = 0, layer_type = 0, fan_in = 4, fan_out = 4,
      weight_range = zero_range, input_range = zero_range, output_range = zero_range,
      amp_factor = a,
      weight_error_contrib = 0, bias_error_contrib = 0, projection_error = 0,
      local_error_sum = l, input_error_bound = 0, output_error_bound = 0,
      overflow_proof = zero_proof, is_valid = False\<rparr>"

text \<open>The bound that leaves a chain: the recurrence unrolled, the entry error for no layer.\<close>

fun final_bound :: "real \<Rightarrow> cq_layer_contract_t list \<Rightarrow> real" where
  "final_bound e [] = e"
| "final_bound e (c # cs) = final_bound (amp_factor c * e + local_error_sum c) cs"

text \<open>
  The bias term in the words of the specification: the accumulator quantum
  \<open>1 / (2 * S_w * S_x)\<close> for weight scale \<open>S_w\<close> and input scale \<open>S_x\<close>.
\<close>

definition accumulator_quantum :: "real \<Rightarrow> real \<Rightarrow> real" where
  "accumulator_quantum S_w S_x = 1 / (2 * S_w * S_x)"

section \<open>Notary (certificate.h, certificate.c)\<close>

type_synonym hash32 = "8 word list"

record cq_analysis_digest_t =
  ad_entry_error :: double
  ad_total_error_bound :: double
  ad_layer_count :: uint32_t
  overflow_safe_count :: uint32_t
  layers_hash :: hash32

record cq_calibration_digest_t =
  cd_dataset_hash :: hash32
  cd_sample_count :: uint32_t
  cd_tensor_count :: uint32_t
  cd_global_coverage_min :: ieee
  cd_global_coverage_p10 :: ieee
  range_veto_status :: "8 word"
  coverage_veto_status :: "8 word"

record cq_certificate_builder_t =
  source_model_hash :: hash32
  source_model_hash_set :: bool
  bn_folding_hash :: hash32
  bn_folded :: bool
  bn_info_set :: bool
  analysis_digest :: cq_analysis_digest_t
  analysis_set :: bool
  calibration_digest :: cq_calibration_digest_t
  calibration_set :: bool
  verification_digest :: cq_verification_digest_t
  verification_set :: bool
  target_model_hash :: hash32
  target_param_count :: uint32_t
  target_layer_count :: uint32_t
  target_set :: bool
  scope_format :: "8 word"
  tool_version :: "8 word list"
  b_faults :: cq_fault_flags_t

record cq_certificate_t =
  magic :: "8 word list"
  version :: "8 word list"
  timestamp :: uint64_t
  scope_symmetric_only :: "8 word"
  cert_scope_format :: "8 word"
  cert_source_model_hash :: hash32
  cert_bn_folding_hash :: hash32
  bn_folding_status :: "8 word"
  cert_analysis_digest :: hash32
  cert_calibration_digest :: hash32
  cert_verification_digest :: hash32
  epsilon_0_claimed :: double
  epsilon_total_claimed :: double
  epsilon_max_measured :: double
  cert_target_model_hash :: hash32
  cert_target_param_count :: uint32_t
  cert_target_layer_count :: uint32_t
  merkle_root :: hash32
  signature :: "8 word list"

definition CQ_CERTIFICATE_MAGIC :: "8 word list" where
  "CQ_CERTIFICATE_MAGIC = [0x43, 0x51, 0x43, 0x52]"

definition CQ_SCOPE_SYMMETRIC_ONLY :: "8 word" where
  "CQ_SCOPE_SYMMETRIC_ONLY = 1"

text \<open>
  What the assembly takes from outside the builder: the clock read by
  \<open>cq_get_timestamp\<close>, and SHA-256 applied to the in-memory bytes of each
  digest structure and of the first six sections of the certificate.  The
  model does not fix the byte layout of the structures, so the four hashes are
  functions of the structures' content.
\<close>

record platform =
  now :: uint64_t
  hash_analysis_digest :: "cq_analysis_digest_t \<Rightarrow> hash32"
  hash_calibration_digest :: "cq_calibration_digest_t \<Rightarrow> hash32"
  hash_verification_digest :: "cq_verification_digest_t \<Rightarrow> hash32"
  hash_content :: "cq_certificate_t \<Rightarrow> hash32"

definition cq_certificate_builder_is_complete :: "cq_certificate_builder_t option \<Rightarrow> bool" where
  "cq_certificate_builder_is_complete builder =
     (case builder of
        None \<Rightarrow> False
      | Some b \<Rightarrow>
          source_model_hash_set b \<and> bn_info_set b \<and> analysis_set b \<and> calibration_set b
          \<and> verification_set b \<and> target_set b)"

text \<open>
  \<open>cq_certificate_build\<close>: the return code, the content of \<open>*cert\<close> and of
  \<open>*faults\<close> after the call.  The two early returns write nothing.  The
  Merkle root is computed from the certificate as assembled so far, whose
  integrity section is still zero.
\<close>

definition cq_certificate_build ::
  "platform \<Rightarrow> cq_certificate_builder_t option \<Rightarrow> cq_certificate_t option
     \<Rightarrow> cq_fault_flags_t option
     \<Rightarrow> int \<times> cq_certificate_t option \<times> cq_fault_flags_t option" where
  "cq_certificate_build env builder cert flt =
     (case (builder, cert, flt) of
        (Some b, Some _, Some f) \<Rightarrow>
          if \<not> cq_certificate_builder_is_complete builder then (- 2, cert, flt)
          else
            let c = \<lparr>magic = CQ_CERTIFICATE_MAGIC,
                       version = tool_version b,
                       timestamp = now env,
                       scope_symmetric_only = CQ_SCOPE_SYMMETRIC_ONLY,
                       cert_scope_format = scope_format b,
                       cert_source_model_hash = source_model_hash b,
                       cert_bn_folding_hash = bn_folding_hash b,
                       bn_folding_status = (if bn_folded b then 1 else 0),
                       cert_analysis_digest = hash_analysis_digest env (analysis_digest b),
                       cert_calibration_digest =
                         hash_calibration_digest env (calibration_digest b),
                       cert_verification_digest =
                         hash_verification_digest env (verification_digest b),
                       epsilon_0_claimed = ad_entry_error (analysis_digest b),
                       epsilon_total_claimed = ad_total_error_bound (analysis_digest b),
                       epsilon_max_measured =
                         vd_total_error_max_measured (verification_digest b),
                       cert_target_model_hash = target_model_hash b,
                       cert_target_param_count = target_param_count b,
                       cert_target_layer_count = target_layer_count b,
                       merkle_root = replicate 32 0,
                       signature = replicate 64 0\<rparr>
            in (0, Some (c\<lparr>merkle_root := hash_content env c\<rparr>),
                Some (cq_fault_merge f (b_faults b)))
      | _ \<Rightarrow> (CQ_ERROR_NULL_POINTER, cert, flt))"

text \<open>
  A completed builder in the manner of the repository's tests, here with every
  fatal flag set in its fault set, a range veto recorded in the calibration
  digest and a failed verification digest; a platform with constant hashes; a
  zeroed certificate buffer; and a caller's fault set with every flag set.
\<close>

definition all_faults :: cq_fault_flags_t where
  "all_faults = \<lparr>overflow = True, underflow = True, div_zero = True,
     range_exceed = True, unfolded_bn = True, asymmetric = True, bound_violation = True\<rparr>"

definition ex_builder :: "cq_fault_flags_t \<Rightarrow> cq_certificate_builder_t" where
  "ex_builder fl =
     \<lparr>source_model_hash = replicate 32 0xAA, source_model_hash_set = True,
      bn_folding_hash = replicate 32 0xBB, bn_folded = True, bn_info_set = True,
      analysis_digest = \<lparr>ad_entry_error = Finite (1 / 131072), ad_total_error_bound = Finite (1 / 10000),
        ad_layer_count = 5, overflow_safe_count = 5, layers_hash = replicate 32 0xCC\<rparr>,
      analysis_set = True,
      calibration_digest = \<lparr>cd_dataset_hash = replicate 32 0xDD, cd_sample_count = 1000,
        cd_tensor_count = 10, cd_global_coverage_min = Finite (92 / 100),
        cd_global_coverage_p10 = Finite (95 / 100), range_veto_status = 1, coverage_veto_status = 0\<rparr>,
      calibration_set = True,
      verification_digest = \<lparr>vd_verification_set_hash = replicate 32 0xEE,
        vd_sample_count = 500, layers_passed = 4, vd_total_error_theoretical = Finite (1 / 10000),
        vd_total_error_max_measured = Finite (2 / 10000), bounds_satisfied = 0\<rparr>,
      verification_set = True,
      target_model_hash = replicate 32 0xFF, target_param_count = 100000,
      target_layer_count = 5, target_set = True,
      scope_format = 0, tool_version = [0, 1, 0, 0], b_faults = fl\<rparr>"

definition ex_platform :: platform where
  "ex_platform = \<lparr>now = 1700000000,
     hash_analysis_digest = (\<lambda>_. replicate 32 1),
     hash_calibration_digest = (\<lambda>_. replicate 32 2),
     hash_verification_digest = (\<lambda>_. replicate 32 3),
     hash_content = (\<lambda>_. replicate 32 4)\<rparr>"

definition zero_certificate :: cq_certificate_t where
  "zero_certificate =
     \<lparr>magic = replicate 4 0, version = replicate 4 0, timestamp = 0,
      scope_symmetric_only = 0, cert_scope_format = 0,
      cert_source_model_hash = replicate 32 0, cert_bn_folding_hash = replicate 32 0,
      bn_folding_status = 0, cert_analysis_digest = replicate 32 0,
      cert_calibration_digest = replicate 32 0, cert_verification_digest = replicate 32 0,
      epsilon_0_claimed = Finite 0, epsilon_total_claimed = Finite 0,
      epsilon_max_measured = Finite 0,
      cert_target_model_hash = replicate 32 0, cert_target_param_count = 0,
      cert_target_layer_count = 0, merkle_root = replicate 32 0,
      signature = replicate 64 0\<rparr>"

section \<open>Global coverage and the tenth percentile (calibrate.c)\<close>

record cq_calibration_report_t =
  dataset_hash :: hash32
  cr_sample_count :: uint32_t
  tensor_count :: uint32_t
  global_coverage_min :: real
  global_coverage_p10 :: real
  global_coverage_mean :: real
  range_veto_triggered :: bool
  coverage_veto_triggered :: bool
  tensors :: "real cq_tensor_stats_t list option"
  cr_faults :: cq_fault_flags_t

subsection \<open>Single-precision arithmetic of the index computation\<close>

text \<open>
  The index is computed as \<open>(uint32_t)((float)n * 0.1f)\<close>.  Here the rounding
  of single precision decides the result, so these three operations are
  modelled exactly.  A positive finite \<open>float\<close> is a pair \<open>(m, e)\<close> standing for
  \<open>m * 2^e\<close>.  IEEE 754 rounds an exact result to 24 significant bits, to
  nearest, ties to even: when \<open>m\<close> has more than 24 bits, the surplus low bits
  are rounded away.  (All values met here are far from the overflow and
  underflow thresholds of the format.)
\<close>

type_synonym float32 = "int \<times> int"

definition round_to_float32 :: "int \<Rightarrow> int \<Rightarrow> float32" where
  "round_to_float32 m e =
     (if bitlen m \<le> 24 then (m, e)
      else let surplus = nat (bitlen m - 24)
           in (round_half_even m (2 ^ surplus), e + int surplus))"

text \<open>\<open>(float)n\<close> for a \<open>uint32_t n\<close>.\<close>

definition float_of_uint32 :: "uint32_t \<Rightarrow> float32" where
  "float_of_uint32 n = round_to_float32 (uint n) 0"

text \<open>The literal \<open>0.1f\<close> is the single-precision number \<open>13421773 * 2^-27\<close>.\<close>

definition float_0_1 :: float32 where
  "float_0_1 = (13421773, - 27)"

definition float_mul :: "float32 \<Rightarrow> float32 \<Rightarrow> float32" where
  "float_mul a b = round_to_float32 (fst a * fst b) (snd a + snd b)"

text \<open>\<open>(uint32_t)x\<close> discards the fractional part.\<close>

definition uint32_of_float :: "float32 \<Rightarrow> uint32_t" where
  "uint32_of_float a =
     word_of_int (if 0 \<le> snd a then fst a * 2 ^ nat (snd a) else fst a div 2 ^ nat (- snd a))"

definition float_value :: "float32 \<Rightarrow> real" where
  "float_value a =
     (if 0 \<le> snd a then real_of_int (fst a) * 2 ^ nat (snd a)
      else real_of_int (fst a) / 2 ^ nat (- snd a))"

definition p10_index :: "uint32_t \<Rightarrow> uint32_t" where
  "p10_index n =
     (let p10_idx = uint32_of_float (float_mul (float_of_uint32 n) float_0_1)
      in if p10_idx \<ge> n then n - 1 else p10_idx)"

subsection \<open>Sorting with the repository's comparator\<close>

definition cq_float_compare_asc :: "real \<Rightarrow> real \<Rightarrow> int" where
  "cq_float_compare_asc fa fb = (if fa < fb then - 1 else if fa > fb then 1 else 0)"

text \<open>
  \<open>qsort\<close> is the C library's.  It is modelled by insertion sort driven by the
  comparator; on finite values the comparator is a total order, for which every
  sorting algorithm returns the same array.
\<close>

fun insert_by :: "('a \<Rightarrow> 'a \<Rightarrow> int) \<Rightarrow> 'a \<Rightarrow> 'a list \<Rightarrow> 'a list" where
  "insert_by cmp x [] = [x]"
| "insert_by cmp x (y # ys) = (if cmp x y \<le> 0 then x # y # ys else y # insert_by cmp x ys)"

definition qsort :: "('a \<Rightarrow> 'a \<Rightarrow> int) \<Rightarrow> 'a list \<Rightarrow> 'a list" where
  "qsort cmp xs = foldr (insert_by cmp) xs []"

subsection \<open>\<open>cq_calibration_compute_global_coverage\<close>\<close>

text \<open>
  The array \<open>report->tensors\<close> holds \<open>tensor_count\<close> statistics.  Whether
  \<open>malloc\<close> returns a buffer is the parameter \<open>buffer_available\<close>.  The sum and
  the mean are single-precision operations, written here with the real ones.
\<close>

definition cq_calibration_compute_global_coverage ::
  "bool \<Rightarrow> cq_calibration_report_t option \<Rightarrow> cq_calibration_report_t option" where
  "cq_calibration_compute_global_coverage buffer_available report =
     (case report of
        None \<Rightarrow> None
      | Some r \<Rightarrow>
          (case tensors r of
             None \<Rightarrow> Some r
           | Some ts \<Rightarrow>
               if tensor_count r = 0 then Some r
               else
                 let n = tensor_count r;
                     coverages = map coverage_ratio (take (unat n) ts);
                     sum = foldl (+) 0 coverages;
                     min_cov = foldl (\<lambda>m c. if c < m then c else m) FLT_MAX coverages
                 in
                   if \<not> buffer_available then
                     Some (r\<lparr>global_coverage_min := min_cov,
                             global_coverage_mean := sum / float_value (float_of_uint32 n),
                             global_coverage_p10 := min_cov\<rparr>)
                   else
                     Some (r\<lparr>global_coverage_mean := sum / float_value (float_of_uint32 n),
                             global_coverage_min := min_cov,
                             global_coverage_p10 :=
                               qsort cq_float_compare_asc coverages ! unat (p10_index n)\<rparr>)))"

text \<open>
  A report over \<open>a\<close> tensors of coverage 0 followed by \<open>b\<close> tensors of
  coverage 1.
\<close>

definition ex_calibration_report :: "nat \<Rightarrow> nat \<Rightarrow> cq_calibration_report_t" where
  "ex_calibration_report a b =
     \<lparr>dataset_hash = replicate 32 0, cr_sample_count = 100, tensor_count = of_nat (a + b),
      global_coverage_min = 0, global_coverage_p10 = 0, global_coverage_mean = 0,
      range_veto_triggered = False, coverage_veto_triggered = False,
      tensors = Some (replicate a ((ex_stats 0 0 0 1)\<lparr>coverage_ratio := 0\<rparr>)
                      @ replicate b ((ex_stats 0 1 0 1)\<lparr>coverage_ratio := 1\<rparr>)),
      cr_faults = no_faults\<rparr>"

section \<open>Verified properties: overflow proof\<close>

lemma unat_ucast_32_64: "unat (ucast (a :: 32 word) :: 64 word) = unat a"
  by (simp add: unsigned_ucast_eq take_bit_nat_eq_self order_less_trans [OF unsigned_less])

lemma unat32_lt: "unat (a :: 32 word) < 2 ^ 32"
  using unsigned_less [of a] by simp

lemma unat_UINT64_MAX: "unat UINT64_MAX = 2 ^ 64 - 1"
  by (simp add: UINT64_MAX_def unsigned_minus_1_eq_mask mask_eq_exp_minus_1)

text \<open>The guard \<open>x > UINT64_MAX / m\<close> is exactly "\<open>m * x\<close> does not fit in 64 bits".\<close>

lemma word_gt_div_iff:
  fixes x m :: "64 word"
  assumes "m \<noteq> 0"
  shows "x > UINT64_MAX div m \<longleftrightarrow> unat m * unat x \<ge> 2 ^ 64"
proof -
  have m0: "0 < unat m" using assms by (simp add: unat_gt_0)
  have "unat (UINT64_MAX div m) = (2 ^ 64 - 1) div unat m"
    by (simp add: unat_div unat_UINT64_MAX)
  then have "x > UINT64_MAX div m \<longleftrightarrow> (2 ^ 64 - 1) div unat m < unat x"
    by (simp add: word_less_nat_alt)
  also have "\<dots> \<longleftrightarrow> 2 ^ 64 - 1 < unat x * unat m"
    using m0 by (simp add: div_less_iff_less_mult)
  also have "\<dots> \<longleftrightarrow> unat m * unat x \<ge> 2 ^ 64"
    by (auto simp: mult.commute)
  finally show ?thesis .
qed

lemma unat_mult_64:
  fixes a b :: "64 word"
  shows "unat a * unat b < 2 ^ 64 \<Longrightarrow> unat (a * b) = unat a * unat b"
  using unat_mult_lem [of a b] by simp

lemma prod32_lt: "unat (a :: 32 word) * unat (b :: 32 word) < 2 ^ 64"
proof -
  have "unat a * unat b < 2 ^ 32 * 2 ^ 32"
    by (rule mult_strict_mono) (use unat32_lt in auto)
  then show ?thesis by simp
qed

text \<open>
  What \<open>cq_compute_overflow_proof\<close> returns and stores, for every input and a
  non-null \<open>proof\<close>: the flag is the comparison of the exact product with
  \<open>2^63\<close>, and no multiplication it performs wraps.
\<close>

lemma cq_compute_overflow_proof_exact:
  "cq_compute_overflow_proof w x n (Some p) =
     (unat n * unat w * unat x < 2 ^ 63,
      Some \<lparr>max_weight_mag = w, max_input_mag = x, dot_product_len = n,
            safety_margin = (if n = 0 \<or> w = 0 \<or> x = 0 then push_bit 63 1
                             else if unat n * unat w * unat x < 2 ^ 63
                             then of_nat (2 ^ 63 - unat n * unat w * unat x) else 0),
            is_safe = (unat n * unat w * unat x < 2 ^ 63)\<rparr>)"
proof (cases "n = 0 \<or> w = 0 \<or> x = 0")
  case True
  then have "unat n * unat w * unat x < 2 ^ 63" by auto
  moreover have "(ucast n :: 64 word) = 0 \<or> (ucast w :: 64 word) = 0 \<or> (ucast x :: 64 word) = 0"
    using True by auto
  ultimately show ?thesis
    using True by (simp add: cq_compute_overflow_proof_def Let_def)
next
  case False
  define N W X where "N = (ucast n :: 64 word)" and "W = (ucast w :: 64 word)"
    and "X = (ucast x :: 64 word)"
  have uN: "unat N = unat n" and uW: "unat W = unat w" and uX: "unat X = unat x"
    by (simp_all add: N_def W_def X_def unat_ucast_32_64)
  have nz: "N \<noteq> 0" "W \<noteq> 0" "X \<noteq> 0"
    using False uN uW uX by (metis unat_eq_0 unsigned_eq_0_iff)+
  have nw: "unat (N * W) = unat n * unat w"
    using unat_mult_64 [of N W] prod32_lt [of n w] by (simp add: uN uW)
  have c1: "\<not> W > UINT64_MAX div N"
    using word_gt_div_iff [OF nz(1), of W] prod32_lt [of n w] by (simp add: uN uW)
  have nwz: "N * W \<noteq> 0"
    using nw False by (metis mult_eq_0_iff unat_eq_0 unsigned_eq_0_iff)
  have c2: "X > UINT64_MAX div (N * W) \<longleftrightarrow> 2 ^ 64 \<le> unat n * unat w * unat x"
    using word_gt_div_iff [OF nwz, of X] by (simp add: nw uX)
  show ?thesis
  proof (cases "2 ^ 64 \<le> unat n * unat w * unat x")
    case True
    then have "\<not> unat n * unat w * unat x < 2 ^ 63" by simp
    then show ?thesis
      using False nz c1 c2 True
      by (simp add: cq_compute_overflow_proof_def Let_def N_def [symmetric] W_def [symmetric]
          X_def [symmetric])
  next
    case small: False
    then have pr: "unat (N * W * X) = unat n * unat w * unat x"
      using unat_mult_64 [of "N * W" X] by (simp add: nw uX)
    have lt: "N * W * X < push_bit 63 1 \<longleftrightarrow> unat n * unat w * unat x < 2 ^ 63"
      by (simp add: word_less_nat_alt pr)
    have sub: "unat n * unat w * unat x < 2 ^ 63 \<Longrightarrow>
       (push_bit 63 1 :: 64 word) - N * W * X = of_nat (2 ^ 63 - unat n * unat w * unat x)"
    proof -
      assume a: "unat n * unat w * unat x < 2 ^ 63"
      have "N * W * X = of_nat (unat n * unat w * unat x)"
        using pr by (metis of_nat_unat ucast_id)
      moreover have "(push_bit 63 1 :: 64 word) = of_nat (2 ^ 63)" by simp
      ultimately show ?thesis using a by simp
    qed
    show ?thesis
      using False nz c1 c2 small lt sub
      by (simp add: cq_compute_overflow_proof_def Let_def N_def [symmetric] W_def [symmetric]
          X_def [symmetric])
  qed
qed

text \<open>
  The primitive multiplies without any guard, so its flag is the comparison of
  the product modulo \<open>2^64\<close>.
\<close>

lemma cq_overflow_is_safe_modular:
  "cq_overflow_is_safe p \<longleftrightarrow>
     dot_product_len p = 0 \<or>
     (unat (dot_product_len p) * unat (max_weight_mag p) * unat (max_input_mag p)) mod 2 ^ 64
       < 2 ^ 63"
  by (simp add: cq_overflow_is_safe_def Let_def word_less_nat_alt unat_word_ariths
      unat_ucast_32_64 mod_mult_left_eq)

text \<open>
  Claim C1.  The flag computed for an overflow proof is meant to be true exactly
  when the exact product \<open>n * |w|_max * |x|_max\<close> is below \<open>2^63\<close>, without any
  wrap-around in the check.  \<open>cq_compute_overflow_proof\<close> does that
  (\<open>cq_compute_overflow_proof_exact\<close>); the primitive \<open>cq_overflow_is_safe\<close> does
  not.  For \<open>n = 2^31\<close>, \<open>|w|_max = 2^31\<close>, \<open>|x|_max = 4\<close> the exact product is
  \<open>2^64\<close>, which is not below \<open>2^63\<close>: the builder stores \<open>is_safe = false\<close>, and
  the primitive, re-checking the stored fields, multiplies to \<open>0\<close> modulo \<open>2^64\<close>
  and answers \<open>true\<close>.
\<close>

theorem cq_overflow_is_safe_wraps:
  "\<not> (unat (2147483648 :: uint32_t) * unat (2147483648 :: uint32_t) * unat (4 :: uint32_t)
        < 2 ^ 63)
   \<and> cq_compute_overflow_proof 2147483648 4 2147483648 (Some p) =
       (False, Some \<lparr>max_weight_mag = 2147483648, max_input_mag = 4,
                       dot_product_len = 2147483648, safety_margin = 0, is_safe = False\<rparr>)
   \<and> cq_overflow_is_safe \<lparr>max_weight_mag = 2147483648, max_input_mag = 4,
                             dot_product_len = 2147483648, safety_margin = 0, is_safe = False\<rparr>"
  by (simp add: cq_overflow_is_safe_def cq_compute_overflow_proof_def UINT64_MAX_def Let_def)

section \<open>Verified properties: round-to-nearest-even shift\<close>

text \<open>Truncating and floor division agree up to the usual correction.\<close>

lemma sdiv_smod_floor:
  fixes X d :: int
  assumes "0 < d"
  shows "(0 \<le> X \<or> X mod d = 0) \<Longrightarrow> X sdiv d = X div d \<and> X smod d = X mod d"
    and "X < 0 \<Longrightarrow> X mod d \<noteq> 0 \<Longrightarrow> X sdiv d = X div d + 1 \<and> X smod d = X mod d - d"
  using assms
  by (auto simp: signed_divide_int_eq_divide_int signed_modulo_int_eq_modulo_int sgn_if
      dvd_eq_mod_eq_0)

lemma rne_trunc_eq:
  fixes X h :: int
  assumes "0 < h"
  shows "rne_trunc X (2 * h) = round_half_even X (2 * h)"
proof -
  define f m where "f = X div (2 * h)" and "m = X mod (2 * h)"
  have d: "0 < 2 * h" using assms by simp
  have hh: "(2 * h) sdiv 2 = h" using assms
    by (simp add: signed_divide_int_def sgn_if)
  have m: "0 \<le> m" "m < 2 * h"
    using d by (simp_all add: m_def del: mult_pos_pos)
  have par: "(f + 1) mod 2 = 1 - f mod 2"
    by presburger
  have ev: "even f \<longleftrightarrow> f mod 2 = 0" "f mod 2 = 0 \<or> f mod 2 = 1"
    by presburger+
  show ?thesis
  proof (cases "0 \<le> X \<or> m = 0")
    case True
    from sdiv_smod_floor(1) [OF d True [unfolded m_def]]
    have q: "X sdiv (2 * h) = f" and r: "X smod (2 * h) = m" by (simp_all add: f_def m_def)
    show ?thesis
      unfolding rne_trunc_def round_half_even_def Let_def hh q r
        f_def [symmetric] m_def [symmetric]
      using m assms ev by auto
  next
    case False
    then have "X < 0" "X mod (2 * h) \<noteq> 0" by (auto simp: m_def)
    from sdiv_smod_floor(2) [OF d this]
    have q: "X sdiv (2 * h) = f + 1" and r: "X smod (2 * h) = m - 2 * h"
      by (simp_all add: f_def m_def)
    show ?thesis
      unfolding rne_trunc_def round_half_even_def Let_def hh q r
        f_def [symmetric] m_def [symmetric] par
      using m assms False ev by auto
  qed
qed


lemma sint_wi64: "- (2 ^ 63) \<le> k \<Longrightarrow> k < 2 ^ 63 \<Longrightarrow> sint (word_of_int k :: 64 word) = k"
  by (simp add: sint_sbintrunc' signed_take_bit_int_eq_self)

lemma sint64_range: "- (2 ^ 63) \<le> sint (x :: 64 word)" "sint (x :: 64 word) < 2 ^ 63"
  using sint_ge [of x] sint_lt [of x] by simp_all

lemma wi64_eq_iff:
  "- (2 ^ 63) \<le> a \<Longrightarrow> a < 2 ^ 63 \<Longrightarrow> - (2 ^ 63) \<le> b \<Longrightarrow> b < 2 ^ 63 \<Longrightarrow>
   (word_of_int a :: 64 word) = word_of_int b \<longleftrightarrow> a = b"
  by (metis sint_wi64)

lemma pow_le_62: "k \<le> 62 \<Longrightarrow> (2::int) ^ k \<le> 2 ^ 62"
  by (rule power_increasing) simp_all

lemma sdiv_pow_bounds:
  fixes X :: int
  assumes X: "- (2 ^ 63) \<le> X" "X < 2 ^ 63" and d: "2 \<le> d"
  shows "- (2 ^ 62) \<le> X sdiv d" "X sdiv d \<le> 2 ^ 62"
proof -
  have "\<bar>X\<bar> \<le> 2 ^ 63" using X by simp
  then have "\<bar>X\<bar> div d \<le> 2 ^ 63 div d" by (rule zdiv_mono1) (use d in simp)
  also have "\<dots> \<le> 2 ^ 63 div 2" by (rule zdiv_mono2) (use d in simp_all)
  finally have b: "\<bar>X\<bar> div d \<le> 2 ^ 62" by simp
  have nn: "0 \<le> \<bar>X\<bar> div d" using d by (simp add: pos_imp_zdiv_nonneg_iff)
  show "- (2 ^ 62) \<le> X sdiv d" "X sdiv d \<le> 2 ^ 62"
    using b nn d by (auto simp: signed_divide_int_def sgn_if)
qed

lemma smod_bounds:
  fixes X d :: int
  assumes "0 < d"
  shows "- d < X smod d" "X smod d < d"
  using smod_int_range [where a=X and b=d] assms by auto


lemma clamp32_wi:
  assumes "- (2 ^ 63) \<le> q" "q < 2 ^ 63"
  shows "fst (cq_clamp32 (word_of_int q) faults) = saturate32 q"
proof -
  have s: "sint (word_of_int q :: 64 word) = q" using assms by (rule sint_wi64)
  have "(ucast (word_of_int q :: 64 word) :: 32 word) = word_of_int q"
    by transfer (simp add: take_bit_take_bit)
  then show ?thesis
    by (simp add: cq_clamp32_def s saturate32_def INT32_MAX_def INT32_MIN_def min_def max_def)
qed

lemma and_one_wi: "(word_of_int q :: 64 word) AND 1 = word_of_int (q mod 2)"
  by (metis and_one_eq of_int_and_eq of_int_1)

lemma cq_round_shift_rne_int:
  fixes x :: int64_t and shift :: uint32_t
  assumes k: "shift \<noteq> 0" "\<not> shift > 62"
  shows "cq_round_shift_rne x shift faults =
           cq_clamp32 (word_of_int (rne_trunc (sint x) (2 ^ unat shift))) faults"
proof -
  define k where "k = unat shift"
  have k1: "1 \<le> k" using k(1) by (simp add: k_def Suc_le_eq unat_gt_0)
  have k62: "k \<le> 62" using k(2) by (simp add: k_def word_less_nat_alt not_less)
  define d :: int where "d = 2 ^ k"
  define h :: int where "h = 2 ^ (k - 1)"
  have dh: "d = 2 * h" using k1 by (simp add: d_def h_def power_eq_if)
  have hpos: "0 < h" by (simp add: h_def)
  have d2: "2 \<le> d" using hpos dh by simp
  have dle: "d \<le> 2 ^ 62" unfolding d_def using k62 by (rule pow_le_62)
  have div_eq: "(2 ^ k :: 64 word) = word_of_int d"
    by (simp add: d_def)
  have sd: "sint (word_of_int d :: 64 word) = d"
    using d2 dle by (intro sint_wi64) simp_all
  define X where "X = sint x"
  have Xr: "- (2 ^ 63) \<le> X" "X < 2 ^ 63"
    unfolding X_def by (rule sint64_range)+
  define q r where "q = X sdiv d" and "r = X smod d"
  have qb: "- (2 ^ 62) \<le> q" "q \<le> 2 ^ 62"
    unfolding q_def using sdiv_pow_bounds [OF Xr d2] by simp_all
  have rb: "- d < r" "r < d"
    unfolding r_def using smod_bounds [of d X] d2 by simp_all
  have hd: "d sdiv 2 = h" using hpos by (simp add: dh signed_divide_int_def sgn_if)
  have half: "div64 (word_of_int d) 2 = word_of_int h"
    by (simp add: div64_def sd hd)
  have quot: "div64 x (word_of_int d) = word_of_int q"
    by (simp add: div64_def sd q_def X_def)
  have rem: "mod64 x (word_of_int d) = word_of_int r"
    by (simp add: mod64_def sd r_def X_def)
  have hb: "h \<le> 2 ^ 61" using dle dh by simp
  have sh: "sint (word_of_int h :: 64 word) = h"
    using hpos hb by (intro sint_wi64) simp_all
  have snh: "sint (- word_of_int h :: 64 word) = - h"
    using hpos hb sint_wi64 [of "- h"] by simp
  have sr: "sint (word_of_int r :: 64 word) = r"
    using rb dle by (intro sint_wi64) simp_all
  have c1: "(word_of_int h :: 64 word) <s word_of_int r \<longleftrightarrow> h < r"
    by (simp add: word_sless_alt sh sr)
  have c2: "(word_of_int r :: 64 word) <s - word_of_int h \<longleftrightarrow> r < - h"
    by (simp add: word_sless_alt snh sr)
  have c3: "(word_of_int r :: 64 word) = word_of_int h \<longleftrightarrow> r = h"
    by (metis sh sr)
  have c4: "(word_of_int r :: 64 word) = - word_of_int h \<longleftrightarrow> r = - h"
  proof
    assume "(word_of_int r :: 64 word) = - word_of_int h"
    then have "sint (word_of_int r :: 64 word) = sint (- word_of_int h :: 64 word)"
      by simp
    then show "r = - h" by (simp only: sr snh)
  next
    assume "r = - h"
    then show "(word_of_int r :: 64 word) = - word_of_int h" by simp
  qed
  show ?thesis
    using k
    by (simp add: cq_round_shift_rne_def Let_def k_def [symmetric] div_eq half quot rem
        c1 c2 c3 c4 and_one_wi rne_trunc_def X_def [symmetric] d_def [symmetric] hd
        q_def [symmetric] r_def [symmetric])
qed


lemma round_half_even_nearest:
  fixes a b :: int
  assumes "0 < b"
  shows "\<bar>2 * a - 2 * b * round_half_even a b\<bar> \<le> b"
    and "\<bar>2 * a - 2 * b * round_half_even a b\<bar> = b \<Longrightarrow> even (round_half_even a b)"
proof -
  define f r where "f = a div b" and "r = a mod b"
  have r: "0 \<le> r" "r < b" using assms by (simp_all add: r_def)
  have "a = b * f + r" by (simp add: f_def r_def)
  then have e0: "2 * a - 2 * b * f = 2 * r"
    and e1: "2 * a - 2 * b * (f + 1) = 2 * r - 2 * b"
    by (simp_all add: algebra_simps)
  have q: "round_half_even a b =
      (if 2 * r < b then f else if 2 * r > b then f + 1 else if even f then f else f + 1)"
    by (simp add: round_half_even_def Let_def f_def r_def)
  show "\<bar>2 * a - 2 * b * round_half_even a b\<bar> \<le> b"
    unfolding q using r by (auto simp: e0 e1)
  show "\<bar>2 * a - 2 * b * round_half_even a b\<bar> = b \<Longrightarrow> even (round_half_even a b)"
    unfolding q using r by (auto simp: e0 e1 split: if_splits)
qed

lemma rne_trunc_near_quot: "\<bar>rne_trunc X d - X sdiv d\<bar> \<le> 1"
proof -
  have "(X sdiv d) mod 2 = 0 \<or> (X sdiv d) mod 2 = 1" by presburger
  then show ?thesis by (auto simp: rne_trunc_def Let_def)
qed

lemma round_half_even_one: "round_half_even a 1 = a"
  by (simp add: round_half_even_def)

lemma cq_round_shift_rne_value:
  fixes x :: int64_t and shift :: uint32_t
  assumes "shift \<le> 62"
  shows "fst (cq_round_shift_rne x shift faults) =
           saturate32 (round_half_even (sint x) (2 ^ unat shift))"
proof (cases "shift = 0")
  case True
  have "x = word_of_int (sint x)" by simp
  then have "fst (cq_clamp32 x faults) = saturate32 (sint x)"
    using clamp32_wi [of "sint x" faults] sint64_range [of x] by simp
  then show ?thesis
    using True by (simp add: cq_round_shift_rne_def round_half_even_one)
next
  case False
  have n62: "\<not> shift > 62" using assms by (simp add: not_less)
  define k where "k = unat shift"
  have k1: "1 \<le> k" using False by (simp add: k_def Suc_le_eq unat_gt_0)
  have k62: "k \<le> 62" using n62 by (simp add: k_def word_less_nat_alt not_less)
  have dh: "(2::int) ^ k = 2 * 2 ^ (k - 1)" using k1 by (simp add: power_eq_if)
  have d2: "(2::int) \<le> 2 ^ k" using dh by simp
  have eq: "rne_trunc (sint x) (2 ^ k) = round_half_even (sint x) (2 ^ k)"
    unfolding dh by (rule rne_trunc_eq) simp
  have qb: "- (2 ^ 62) \<le> sint x sdiv 2 ^ k" "sint x sdiv 2 ^ k \<le> 2 ^ 62"
    using sdiv_pow_bounds [OF sint64_range d2, of x] by simp_all
  have rng: "- (2 ^ 63) \<le> rne_trunc (sint x) (2 ^ k)" "rne_trunc (sint x) (2 ^ k) < 2 ^ 63"
    using rne_trunc_near_quot [of "sint x" "2 ^ k"] qb by simp_all
  show ?thesis
    using cq_round_shift_rne_int [OF False n62, of x faults] clamp32_wi [OF rng, of faults] eq
    unfolding k_def by simp
qed

text \<open>
  Claim C6.  For every signed 64-bit \<open>x\<close> and every shift \<open>k\<close> from 0 to 62,
  \<open>cq_round_shift_rne\<close> returns the 32-bit saturation of \<open>x / 2^k\<close> rounded to
  nearest, ties to the even quotient: the returned value is the saturation of
  \<open>q = round_half_even x (2^k)\<close>, and \<open>q\<close> is within one half of \<open>x / 2^k\<close>
  and even whenever it is exactly one half away.  For every shift above 62 the
  call returns 0 and sets the overflow flag (on a non-null \<open>faults\<close>).
\<close>

theorem cq_round_shift_rne_spec:
  fixes x :: int64_t and shift :: uint32_t
  shows "(shift \<le> 62 \<longrightarrow>
            fst (cq_round_shift_rne x shift faults) =
              saturate32 (round_half_even (sint x) (2 ^ unat shift))
          \<and> \<bar>2 * sint x - 2 * 2 ^ unat shift * round_half_even (sint x) (2 ^ unat shift)\<bar>
              \<le> 2 ^ unat shift
          \<and> (\<bar>2 * sint x - 2 * 2 ^ unat shift * round_half_even (sint x) (2 ^ unat shift)\<bar>
               = 2 ^ unat shift \<longrightarrow> even (round_half_even (sint x) (2 ^ unat shift))))
       \<and> (62 < shift \<longrightarrow> cq_round_shift_rne x shift faults = (0, set_overflow faults))"
proof -
  have pos: "(0::int) < 2 ^ unat shift" by simp
  show ?thesis
    using cq_round_shift_rne_value [of shift x faults]
      round_half_even_nearest [OF pos, of "sint x"]
    by (simp add: cq_round_shift_rne_def)
qed

text \<open>
  The test vectors of the specification, obtained from the theorem: 1.5, 2.5
  and 3.5 round to 2, 2 and 4, -1.5 and -2.5 round to -2; a shift of 63 gives
  0 with the overflow flag.
\<close>

theorem cq_round_shift_rne_spec_witness:
  "(16 :: uint32_t) \<le> 62 \<and> (62 :: uint32_t) < 63
   \<and> fst (cq_round_shift_rne 0x18000 16 None) = 2
   \<and> fst (cq_round_shift_rne 0x28000 16 None) = 2
   \<and> fst (cq_round_shift_rne 0x38000 16 None) = 4
   \<and> fst (cq_round_shift_rne (- 0x18000) 16 None) = - 2
   \<and> fst (cq_round_shift_rne (- 0x28000) 16 None) = - 2
   \<and> cq_round_shift_rne 0x18000 63 (Some no_faults) = (0, Some (no_faults\<lparr>overflow := True\<rparr>))"
  using cq_round_shift_rne_spec [of 16 "0x18000" None]
    cq_round_shift_rne_spec [of 16 "0x28000" None]
    cq_round_shift_rne_spec [of 16 "0x38000" None]
    cq_round_shift_rne_spec [of 16 "- 0x18000" None]
    cq_round_shift_rne_spec [of 16 "- 0x28000" None]
    cq_round_shift_rne_spec [of 63 "0x18000" "Some no_faults"]
  by (simp add: round_half_even_def saturate32_def INT32_MAX_def INT32_MIN_def set_overflow_def)

section \<open>Verified properties: Q16.16 division\<close>

lemma cq_div_q16_by_zero: "cq_div_q16 a 0 faults = (0, set_div_zero faults)"
  by (simp add: cq_div_q16_def)

text \<open>
  Claim C7.  \<open>cq_div_q16 a b\<close> is meant to return the saturation of the exact
  quotient \<open>(a * 2^16) / b\<close> rounded to nearest, ties to even.  The code compares
  the remainder with \<open>|b| / 2\<close> computed by integer division, which for an odd
  divisor is below the true half: a remainder of \<open>(|b| - 1) / 2\<close> is taken for a
  tie.  At \<open>a = 1\<close>, \<open>b = 3\<close> the exact quotient is \<open>65536 / 3 = 21845.33\<dots>\<close>, whose
  nearest integer is 21845; the code finds quotient 21845 (odd), remainder 1,
  \<open>half_b = 1\<close>, and returns 21846.
\<close>

theorem cq_div_q16_one_third:
  "fst (cq_div_q16 1 3 faults) = 21846
   \<and> saturate32 (round_half_even (sint (1 :: cq_fixed16_t) * 2 ^ 16) (sint (3 :: cq_fixed16_t)))
       = 21845"
  by (simp add: cq_div_q16_def div64_def mod64_def div32_def cq_clamp32_def CQ_Q16_SHIFT_def
      INT32_MAX_def INT32_MIN_def Let_def word_sless_alt word_sle_eq signed_divide_int_def
      signed_modulo_int_def round_half_even_def saturate32_def)

section \<open>Verified properties: calibrator\<close>

text \<open>Samples that are NaN or infinite leave the statistics as they are.\<close>

lemma observe_not_finite: "\<not> is_finite v \<Longrightarrow> observe s v = s"
  by (cases v) (simp_all add: is_finite_def)

lemma foldl_observe_not_finite:
  "\<forall>v \<in> set vs. \<not> is_finite v \<Longrightarrow> foldl observe s vs = s"
  by (induction vs arbitrary: s) (simp_all add: observe_not_finite)

lemma run_call_not_finite:
  "\<forall>v \<in> set (samples_of c). \<not> is_finite v \<Longrightarrow> run_call stats c = stats"
proof (cases c)
  case (Update tensor)
  assume a: "\<forall>v \<in> set (samples_of c). \<not> is_finite v"
  show ?thesis
  proof (cases tensor)
    case None
    then show ?thesis using Update by (simp add: cq_tensor_stats_update_def split: option.splits)
  next
    case (Some vs)
    then show ?thesis using Update a
      by (simp add: cq_tensor_stats_update_def foldl_observe_not_finite split: option.splits)
  qed
next
  case (Update_single v)
  assume "\<forall>v \<in> set (samples_of c). \<not> is_finite v"
  then show ?thesis using Update_single
    by (auto simp: cq_tensor_stats_update_single_def is_finite_def split: option.splits)
qed

lemma run_calls_not_finite:
  "\<forall>c \<in> set calls. \<forall>v \<in> set (samples_of c). \<not> is_finite v \<Longrightarrow>
     foldl run_call stats calls = stats"
  by (induction calls arbitrary: stats) (simp_all add: run_call_not_finite)


text \<open>
  Claim C9.  A tensor whose statistics were initialised by
  \<open>cq_tensor_stats_init\<close> and then received, through any sequence of
  \<open>cq_tensor_stats_update\<close> and \<open>cq_tensor_stats_update_single\<close> calls, no finite
  sample keeps \<open>min_observed = FLT_MAX\<close> and \<open>max_observed = -FLT_MAX\<close>; for every
  safe range with \<open>min_safe \<le> FLT_MAX\<close> and \<open>max_safe \<ge> -FLT_MAX\<close>,
  \<open>cq_tensor_check_range_veto\<close> then returns false and leaves \<open>range_veto\<close>
  false.
\<close>

theorem unobserved_tensor_passes_range_veto:
  assumes "\<forall>c \<in> set calls. \<forall>v \<in> set (samples_of c). \<not> is_finite v"
    and "lo \<le> FLT_MAX" and "- FLT_MAX \<le> hi"
  shows "cq_tensor_check_range_veto
           (foldl run_call (cq_tensor_stats_init (Some s0) tid lidx lo hi) calls) =
         (False, Some \<lparr>tensor_id = tid, ts_layer_index = lidx,
                        min_observed = FLT_MAX, max_observed = - FLT_MAX,
                        min_safe = lo, max_safe = hi,
                        coverage_ratio = 0, is_degenerate = False, range_veto = False\<rparr>)"
  using assms(2,3)
  by (simp add: run_calls_not_finite [OF assms(1)] cq_tensor_stats_init_def
      cq_tensor_check_range_veto_def)

theorem unobserved_tensor_passes_range_veto_witness:
  "(- 1 :: real) \<le> FLT_MAX \<and> - FLT_MAX \<le> (1 :: real)
   \<and> cq_tensor_check_range_veto
        (foldl run_call (cq_tensor_stats_init (Some (ex_stats 0 0 0 0)) 7 0 (- 1) 1)
           [Update (Some [NaN, PosInf]), Update_single NegInf, Update None]) =
       (False, Some \<lparr>tensor_id = 7, ts_layer_index = 0,
                      min_observed = FLT_MAX, max_observed = - FLT_MAX,
                      min_safe = - 1, max_safe = 1,
                      coverage_ratio = 0, is_degenerate = False, range_veto = False\<rparr>)"
proof -
  have h1: "\<forall>c \<in> set [Update (Some [NaN, PosInf]), Update_single NegInf, Update None].
      \<forall>v \<in> set (samples_of c). \<not> is_finite v"
    by (simp add: is_finite_def)
  have h2: "(- 1 :: real) \<le> FLT_MAX" and h3: "- FLT_MAX \<le> (1 :: real)"
    by (simp_all add: FLT_MAX_def)
  show ?thesis
    using unobserved_tensor_passes_range_veto [OF h1 h2 h3, of "ex_stats 0 0 0 0" 7 0] h2 h3
    by simp
qed

subsection \<open>Coverage ratio in single precision\<close>

text \<open>
  Evaluation of the single-precision operations on numerals, and some known
  results of IEEE 754 arithmetic that the model reproduces: \<open>1 / 3\<close> and
  \<open>1 - 1e-7f\<close> rounded to nearest, \<open>FLT_MAX / 0.5\<close> and \<open>FLT_MAX + FLT_MAX\<close>
  overflowing to infinity, the halves of the two smallest subnormal numbers
  (a tie rounded to the even neighbour), division by the negative zero, and
  \<open>1e-7f - 1e-30f\<close>, which rounds back to \<open>1e-7f\<close>.
\<close>

lemma bitlen_numeral:
  "bitlen 0 = 0" "bitlen 1 = 1"
  "bitlen (numeral (Num.Bit0 n)) = bitlen (numeral n) + 1"
  "bitlen (numeral (Num.Bit1 n)) = bitlen (numeral n) + 1"
  by (subst compute_bitlen, simp)+

lemmas f32_eval = f32_sub_def round_f32_def round_half_even_def scaled_def bitlen_numeral
  f32_zero_def f32_one_def f32_1e_7_def Let_def

lemma binary32_examples:
  "f32_div f32_one (F32 False 3 0) = F32 False 11184811 (- 25)"
  "f32_sub f32_one f32_1e_7 = F32 False 16777214 (- 24)"
  "f32_div (F32 False 16777215 104) (F32 False 1 (- 1)) = F32_inf False"
  "f32_sub (F32 False 16777215 104) (F32 True 16777215 104) = F32_inf False"
  "f32_div (F32 False 3 (- 149)) (F32 False 2 0) = F32 False 2 (- 149)"
  "f32_div (F32 False 1 (- 149)) (F32 False 2 0) = F32 False 0 (- 149)"
  "f32_div f32_one (F32 True 0 0) = F32_inf True"
  "f32_div f32_zero f32_zero = F32_nan"
  "f32_sub f32_1e_7 (F32 False 10633824 (- 123)) = f32_1e_7"
  by (simp_all add: f32_eval)

text \<open>A number of the format is its own rounding.\<close>

lemma round_f32_exact:
  assumes "m < 2 ^ 24" and "- 149 \<le> e" and "bitlen (int m) + e \<le> 128"
  shows "round_f32 s m e = F32 s m e"
proof -
  have "bitlen (int m) \<le> 24" using assms(1) by (simp add: bitlen_le_iff_power)
  then show ?thesis using assms(2,3) by (simp add: round_f32_def)
qed

text \<open>
  On operands that are not NaN, "not below" is "at least"; and a zero is below
  every positive number.
\<close>

lemma f32_not_lt_le: "\<not> f32_isnan a \<Longrightarrow> \<not> f32_isnan b \<Longrightarrow> \<not> f32_lt a b \<Longrightarrow> f32_le b a"
  by (cases a; cases b) (auto simp: min.commute)

lemma fabsf_isnan: "f32_isnan (fabsf d) = f32_isnan d"
  by (cases d) simp_all

lemma f32_zero_lt_abs: "f32_lt f32_zero b \<Longrightarrow> f32_is_zero d \<Longrightarrow> f32_lt (fabsf d) b"
  by (cases b; cases d) (auto simp: f32_zero_def scaled_def zero_less_mult_iff split: if_splits)

text \<open>
  Claim C10, as amended.  When the single-precision difference
  \<open>max_safe - min_safe\<close> is in magnitude below the epsilon in force (the
  configured one, \<open>1e-7f\<close> without a configuration),
  \<open>cq_tensor_compute_coverage\<close> marks the tensor degenerate, sets the coverage
  ratio to \<open>1.0f\<close> and divides by nothing.  Every division it executes has that
  difference as denominator, stores the rounded quotient, and its denominator
  is not below the epsilon in magnitude: at least the epsilon when neither
  of the two is a NaN, and not a zero when the epsilon is positive, as the
  default is.
\<close>

theorem cq_tensor_compute_coverage_guard:
  assumes "cq_tensor_compute_coverage (Some s) config = (st', ds)"
  shows "(f32_lt (fabsf (f32_sub (max_safe s) (min_safe s))) (epsilon_of config) \<longrightarrow>
            st' = Some (s\<lparr>is_degenerate := True, coverage_ratio := f32_one\<rparr>) \<and> ds = [])
       \<and> (\<forall>d \<in> set ds.
             d = f32_sub (max_safe s) (min_safe s)
           \<and> st' = Some (s\<lparr>is_degenerate := False,
                  coverage_ratio := f32_div (f32_sub (max_observed s) (min_observed s)) d\<rparr>)
           \<and> \<not> f32_lt (fabsf d) (epsilon_of config)
           \<and> (\<not> f32_isnan d \<and> \<not> f32_isnan (epsilon_of config) \<longrightarrow>
                f32_le (epsilon_of config) (fabsf d))
           \<and> (f32_lt f32_zero (epsilon_of config) \<longrightarrow> \<not> f32_is_zero d))"
  using assms f32_zero_lt_abs [of "epsilon_of config" "f32_sub (max_safe s) (min_safe s)"]
    f32_not_lt_le [of "fabsf (f32_sub (max_safe s) (min_safe s))" "epsilon_of config"]
  by (auto simp: cq_tensor_compute_coverage_def Let_def fabsf_isnan split: if_splits)

theorem cq_tensor_compute_coverage_guard_witness:
  "f32_lt (fabsf (f32_sub (max_safe (ex_stats32 f32_zero f32_one f32_one f32_one))
                          (min_safe (ex_stats32 f32_zero f32_one f32_one f32_one))))
          (epsilon_of None)
   \<and> cq_tensor_compute_coverage (Some (ex_stats32 f32_zero f32_one f32_one f32_one)) None =
     (Some ((ex_stats32 f32_zero f32_one f32_one f32_one)
              \<lparr>is_degenerate := True, coverage_ratio := f32_one\<rparr>), [])
   \<and> cq_tensor_compute_coverage (Some (ex_stats32 f32_zero f32_one f32_zero (F32 False 2 0)))
        None =
     (Some ((ex_stats32 f32_zero f32_one f32_zero (F32 False 2 0))
              \<lparr>is_degenerate := False, coverage_ratio := F32 False 8388608 (- 24)\<rparr>),
      [F32 False 2 0])
   \<and> f32_lt f32_zero (epsilon_of None)
   \<and> f32_le (epsilon_of None) (fabsf (F32 False 2 0))
   \<and> \<not> f32_is_zero (F32 False 2 0)"
proof -
  have e1: "cq_tensor_compute_coverage (Some (ex_stats32 f32_zero f32_one f32_one f32_one)) None =
     (Some ((ex_stats32 f32_zero f32_one f32_one f32_one)
              \<lparr>is_degenerate := True, coverage_ratio := f32_one\<rparr>), [])"
    by (simp add: cq_tensor_compute_coverage_def ex_stats32_def epsilon_of_def f32_eval)
  have e2: "cq_tensor_compute_coverage
       (Some (ex_stats32 f32_zero f32_one f32_zero (F32 False 2 0))) None =
     (Some ((ex_stats32 f32_zero f32_one f32_zero (F32 False 2 0))
              \<lparr>is_degenerate := False, coverage_ratio := F32 False 8388608 (- 24)\<rparr>),
      [F32 False 2 0])"
    by (simp add: cq_tensor_compute_coverage_def ex_stats32_def epsilon_of_def f32_eval)
  have g: "f32_lt (fabsf (f32_sub (max_safe (ex_stats32 f32_zero f32_one f32_one f32_one))
                          (min_safe (ex_stats32 f32_zero f32_one f32_one f32_one))))
          (epsilon_of None)"
    by (simp add: ex_stats32_def epsilon_of_def f32_eval)
  have pos: "f32_lt f32_zero (epsilon_of None)"
    by (simp add: epsilon_of_def f32_eval)
  have nn: "\<not> f32_isnan (F32 False 2 0) \<and> \<not> f32_isnan (epsilon_of None)"
    by (simp add: epsilon_of_def f32_eval)
  show ?thesis
    using cq_tensor_compute_coverage_guard [OF e1] cq_tensor_compute_coverage_guard [OF e2]
      e1 e2 g pos nn
    by simp
qed

text \<open>
  The claim as stated, "never divides by zero" with a denominator "of
  magnitude at least the epsilon" for every configuration, fails.  With an
  observed range \<open>[0, 1]\<close> and a safe range \<open>[1, 1]\<close>, a configured epsilon of
  0, or of NaN, lets both guards pass and the call divides by 0, storing an
  infinite ratio.  And the guard is on the rounded difference, not on
  \<open>|max_safe - min_safe|\<close>: for the safe range \<open>[1e-30f, 1e-7f]\<close> and the
  default epsilon \<open>1e-7f\<close> the exact difference is below the epsilon, yet the
  tensor is not marked degenerate, because the rounded difference is \<open>1e-7f\<close>.
\<close>

theorem cq_tensor_compute_coverage_divides_by_zero:
  "cq_tensor_compute_coverage (Some (ex_stats32 f32_zero f32_one f32_one f32_one))
       (Some (ex_config f32_zero)) =
     (Some ((ex_stats32 f32_zero f32_one f32_one f32_one)
              \<lparr>is_degenerate := False, coverage_ratio := F32_inf False\<rparr>),
      [F32 False 0 0])
   \<and> f32_is_zero (F32 False 0 0)
   \<and> cq_tensor_compute_coverage (Some (ex_stats32 f32_zero f32_one f32_one f32_one))
       (Some (ex_config F32_nan)) =
     (Some ((ex_stats32 f32_zero f32_one f32_one f32_one)
              \<lparr>is_degenerate := False, coverage_ratio := F32_inf False\<rparr>),
      [F32 False 0 0])
   \<and> \<not> f32_le F32_nan (fabsf (F32 False 0 0))
   \<and> cq_tensor_compute_coverage
       (Some (ex_stats32 f32_zero f32_one (F32 False 10633824 (- 123)) f32_1e_7)) None =
     (Some ((ex_stats32 f32_zero f32_one (F32 False 10633824 (- 123)) f32_1e_7)
              \<lparr>is_degenerate := False, coverage_ratio := F32 False 10000000 0\<rparr>),
      [F32 False 14073749 (- 47)])
   \<and> scaled False 14073749 (- 47) (- 123) - scaled False 10633824 (- 123) (- 123)
       < scaled False 14073749 (- 47) (- 123)"
  by (simp add: cq_tensor_compute_coverage_def ex_stats32_def ex_config_def epsilon_of_def
      f32_eval)

section \<open>Verified properties: verifier\<close>



lemma count_passed_all:
  "count_passed ls c = c + of_nat (length (filter bound_satisfied ls))"
  by (induction ls arbitrary: c) simp_all


lemma cq_verify_check_all_bounds_null_array:
  "layers r = None \<Longrightarrow> layer_count r \<noteq> 0 \<Longrightarrow>
     cq_verify_check_all_bounds (Some r) (Some f) =
       (CQ_ERROR_NULL_POINTER, Some (r\<lparr>all_bounds_satisfied := True\<rparr>), Some f)"
  by (simp add: cq_verify_check_all_bounds_def Let_def unat_gt_0)





section \<open>Verified properties: error recurrence\<close>

lemma propagate_length [simp]: "length (propagate e cs) = length cs"
  by (induction cs arbitrary: e) (simp_all add: cq_apply_error_recurrence_def Let_def)

lemma propagate_Cons:
  "propagate e (c # cs) =
     c\<lparr>input_error_bound := e, output_error_bound := amp_factor c * e + local_error_sum c,
       is_valid := True\<rparr> # propagate (amp_factor c * e + local_error_sum c) cs"
  by (simp add: cq_apply_error_recurrence_def Let_def)

lemma propagate_last:
  "cs \<noteq> [] \<Longrightarrow> output_error_bound (last (propagate e cs)) = final_bound e cs"
proof (induction cs arbitrary: e)
  case Nil
  then show ?case by simp
next
  case (Cons c cs)
  show ?case
  proof (cases cs)
    case Nil
    then show ?thesis by (simp add: propagate_Cons del: propagate.simps(2))
  next
    case (Cons d ds)
    then have "propagate (amp_factor c * e + local_error_sum c) cs \<noteq> []"
      by (simp add: propagate_Cons del: propagate.simps(2))
    then show ?thesis using Cons.IH [of "amp_factor c * e + local_error_sum c"] Cons
      by (simp add: propagate_Cons del: propagate.simps(2))
  qed
qed

lemma chain_total_eq:
  assumes "length cs < 2 ^ 32"
  shows "chain_total e cs = final_bound e cs"
proof (cases cs)
  case Nil
  then show ?thesis
    by (simp add: chain_total_def chain_ctx_def cq_compute_total_error_def)
next
  case (Cons c ds)
  have u: "unat (of_nat (length cs) :: 32 word) = length cs"
    using assms by (simp add: unat_of_nat take_bit_nat_eq_self)
  have nz: "(of_nat (length cs) :: 32 word) \<noteq> 0"
    using u Cons by (metis length_0_conv list.distinct(1) unat_0)
  have "propagate e cs ! (length cs - 1) = last (propagate e cs)"
    using Cons by (metis last_conv_nth length_0_conv list.distinct(1) propagate_length)
  then show ?thesis
    using Cons u nz propagate_last [of cs e]
    by (simp add: chain_total_def chain_ctx_def cq_compute_total_error_def Let_def
        del: propagate.simps(2))
qed

lemma final_bound_append:
  "final_bound e (cs @ [c]) = amp_factor c * final_bound e cs + local_error_sum c"
  by (induction cs arbitrary: e) simp_all

lemma final_bound_ge:
  "\<forall>c \<in> set cs. 1 \<le> amp_factor c \<and> 0 \<le> local_error_sum c \<Longrightarrow> 0 \<le> e \<Longrightarrow>
     e \<le> final_bound e cs"
proof (induction cs arbitrary: e)
  case Nil
  then show ?case by simp
next
  case (Cons c cs)
  have "e \<le> amp_factor c * e" using Cons.prems by (simp add: mult_le_cancel_right1)
  then have step: "e \<le> amp_factor c * e + local_error_sum c" using Cons.prems by simp
  then have "amp_factor c * e + local_error_sum c
      \<le> final_bound (amp_factor c * e + local_error_sum c) cs"
    using Cons.prems by (intro Cons.IH) auto
  then show ?case using step by simp
qed

lemma propagate_layerwise:
  "\<forall>c \<in> set cs. 1 \<le> amp_factor c \<and> 0 \<le> local_error_sum c \<Longrightarrow> 0 \<le> e \<Longrightarrow>
     \<forall>c' \<in> set (propagate e cs). input_error_bound c' \<le> output_error_bound c'"
proof (induction cs arbitrary: e)
  case Nil
  then show ?case by simp
next
  case (Cons c cs)
  have "e \<le> amp_factor c * e" using Cons.prems by (simp add: mult_le_cancel_right1)
  then have step: "e \<le> amp_factor c * e + local_error_sum c" using Cons.prems by simp
  then have "\<forall>c' \<in> set (propagate (amp_factor c * e + local_error_sum c) cs).
      input_error_bound c' \<le> output_error_bound c'"
    using Cons.prems by (intro Cons.IH) auto
  then show ?case using step by (simp add: propagate_Cons del: propagate.simps(2))
qed

text \<open>
  Claim C3, as amended.  For a chain of layer contracts whose amplification
  factors are all at least 1 and whose local error sums are all nonnegative, and
  a nonnegative entry error: every layer's output error bound is at least its
  input error bound, the total error is at least the entry error, and appending
  a further such layer does not decrease the total error.
\<close>

theorem error_chain_monotone:
  assumes "\<forall>c \<in> set cs. 1 \<le> amp_factor c \<and> 0 \<le> local_error_sum c"
    and "1 \<le> amp_factor c" and "0 \<le> local_error_sum c"
    and "0 \<le> eps0" and "length cs + 1 < 2 ^ 32"
  shows "(\<forall>c' \<in> set (propagate eps0 cs). input_error_bound c' \<le> output_error_bound c')
       \<and> eps0 \<le> chain_total eps0 cs
       \<and> chain_total eps0 cs \<le> chain_total eps0 (cs @ [c])"
proof -
  have len: "length cs < 2 ^ 32" "length (cs @ [c]) < 2 ^ 32"
    using assms(5) by simp_all
  have ge: "eps0 \<le> final_bound eps0 cs"
    using assms(1,4) by (rule final_bound_ge)
  then have nn: "0 \<le> final_bound eps0 cs" using assms(4) by simp
  have "final_bound eps0 cs \<le> amp_factor c * final_bound eps0 cs"
    using nn assms(2) by (simp add: mult_le_cancel_right1)
  then have app: "final_bound eps0 cs \<le> final_bound eps0 (cs @ [c])"
    using assms(3) by (simp add: final_bound_append)
  show ?thesis
    using propagate_layerwise [OF assms(1,4)] ge app
    by (simp add: chain_total_eq [OF len(1)] chain_total_eq [OF len(2)])
qed

text \<open>
  The third test scenario of the specification (\<open>A = 1.5\<close>, \<open>L = 0.001\<close>,
  \<open>\<epsilon>\<^sub>0 = 10^-4\<close>): two layers give 0.002725, a third one 0.0050875.
\<close>

theorem error_chain_monotone_witness:
  "(1 :: real) \<le> 3 / 2 \<and> (0 :: real) \<le> 1 / 1000 \<and> (0 :: real) \<le> 1 / 10000
   \<and> chain_total (1 / 10000) [ex_contract (3 / 2) (1 / 1000), ex_contract (3 / 2) (1 / 1000)]
       = 2725 / 1000000
   \<and> chain_total (1 / 10000) ([ex_contract (3 / 2) (1 / 1000), ex_contract (3 / 2) (1 / 1000)]
         @ [ex_contract (3 / 2) (1 / 1000)]) = 50875 / 10000000
   \<and> 1 / 10000 \<le> chain_total (1 / 10000)
         [ex_contract (3 / 2) (1 / 1000), ex_contract (3 / 2) (1 / 1000)]
   \<and> chain_total (1 / 10000) [ex_contract (3 / 2) (1 / 1000), ex_contract (3 / 2) (1 / 1000)]
       \<le> chain_total (1 / 10000)
            ([ex_contract (3 / 2) (1 / 1000), ex_contract (3 / 2) (1 / 1000)]
               @ [ex_contract (3 / 2) (1 / 1000)])"
proof -
  let ?c = "ex_contract (3 / 2) (1 / 1000)"
  have h1: "\<forall>c \<in> set [?c, ?c]. 1 \<le> amp_factor c \<and> 0 \<le> local_error_sum c"
    by (simp add: ex_contract_def)
  have h2: "1 \<le> amp_factor ?c" and h3: "0 \<le> local_error_sum ?c"
    by (simp_all add: ex_contract_def)
  have h4: "(0 :: real) \<le> 1 / 10000" by simp
  have h5: "length [?c, ?c] + 1 < 2 ^ 32" by simp
  have v2: "chain_total (1 / 10000) [?c, ?c] = 2725 / 1000000"
    by (simp add: chain_total_eq ex_contract_def)
  have v3: "chain_total (1 / 10000) ([?c, ?c] @ [?c]) = 50875 / 10000000"
    by (simp add: chain_total_eq ex_contract_def)
  show ?thesis
    using error_chain_monotone [OF h1 h2 h3 h4 h5] v2 v3 by simp
qed

text \<open>
  The claim as stated, for every chain, fails when a layer's norm is below 1:
  with entry error \<open>1/2\<close> (input scale exponent 0) and one layer of norm
  \<open>1/2\<close> and local error sum 0, the layer's output bound \<open>1/4\<close> is below its
  input bound \<open>1/2\<close>, the total error is below the entry error, and the chain
  with the layer appended has a smaller total than the empty chain.
\<close>

theorem error_chain_not_monotone:
  "cq_compute_entry_error 0 = 1 / 2
   \<and> input_error_bound (hd (propagate (1 / 2) [ex_contract (1 / 2) 0])) = 1 / 2
   \<and> output_error_bound (hd (propagate (1 / 2) [ex_contract (1 / 2) 0])) = 1 / 4
   \<and> \<not> input_error_bound (hd (propagate (1 / 2) [ex_contract (1 / 2) 0]))
        \<le> output_error_bound (hd (propagate (1 / 2) [ex_contract (1 / 2) 0]))
   \<and> \<not> 1 / 2 \<le> chain_total (1 / 2) [ex_contract (1 / 2) 0]
   \<and> \<not> chain_total (1 / 2) [] \<le> chain_total (1 / 2) ([] @ [ex_contract (1 / 2) 0])"
  by (simp add: cq_compute_entry_error_def chain_total_eq ex_contract_def propagate_Cons
      del: propagate.simps(2))

section \<open>Verified properties: error contributions\<close>

lemma cq_compute_error_contributions_eq:
  assumes "0 < weight_scale" and "0 < output_scale"
  shows "cq_compute_error_contributions (Some c) weight_scale output_scale max_input_norm =
    Some (c\<lparr>weight_error_contrib := (0.5 / weight_scale) * max_input_norm,
            bias_error_contrib := 0.5 / (weight_scale * weight_scale),
            projection_error := 0.5 / output_scale,
            local_error_sum := (0.5 / weight_scale) * max_input_norm
                               + 0.5 / (weight_scale * weight_scale) + 0.5 / output_scale\<rparr>)"
  using assms by (simp add: cq_compute_error_contributions_def Let_def not_le)

text \<open>
  Claim C4.  The bias error contribution is meant to be the accumulator
  quantum \<open>1 / (2 * S_w * S_x)\<close>, the product being of the weight scale with
  the input scale.  The code has no input scale at hand and divides by the
  square of the weight scale (\<open>cq_compute_error_contributions_eq\<close>).  For
  Q16.16 weights (\<open>S_w = 65536\<close>) and an input scale \<open>S_x = 256\<close> the stored
  contribution is \<open>2^-33\<close>, not the accumulator quantum \<open>2^-25\<close>.
\<close>

theorem bias_error_contrib_weight_scale_squared:
  "bias_error_contrib
     (the (cq_compute_error_contributions (Some (ex_contract 1 0)) 65536 65536 1))
     = 1 / 2 ^ 33
   \<and> accumulator_quantum 65536 256 = 1 / 2 ^ 25
   \<and> bias_error_contrib
       (the (cq_compute_error_contributions (Some (ex_contract 1 0)) 65536 65536 1))
     \<noteq> accumulator_quantum 65536 256"
  by (simp add: cq_compute_error_contributions_def accumulator_quantum_def Let_def)

text \<open>The stored term is the accumulator quantum exactly when the two scales coincide.\<close>

lemma bias_error_contrib_is_quantum_iff:
  assumes "0 < S_w" and "0 < S_x" and "0 < S_out"
  shows "bias_error_contrib (the (cq_compute_error_contributions (Some c) S_w S_out n))
           = accumulator_quantum S_w S_x \<longleftrightarrow> S_x = S_w"
  using assms
  by (auto simp add: cq_compute_error_contributions_eq accumulator_quantum_def field_simps)

section \<open>Verified properties: certificate assembly\<close>

text \<open>
  Claim C2, as amended.  \<open>cq_certificate_build\<close> returns 0 exactly when its
  three pointers are non-null and the builder is complete.  Otherwise it
  returns a negative code and writes neither the certificate nor the fault
  set.  When it returns 0 the certificate it leaves is the assembled one, field
  by field: the magic, the builder's tool version, the time stamp, the scope,
  the source hashes and the folding status, the hashes of the three digests,
  the three claimed errors copied from the digests, the target identity, the
  Merkle root computed over the certificate so far and a zero signature; and
  the builder's fault flags are merged into the caller's.  No fault flag takes
  part in the decision.
\<close>

theorem cq_certificate_build_refusal:
  assumes "cq_certificate_build env builder cert flt = (rc, cert', flt')"
  shows "(rc = 0 \<longleftrightarrow>
            builder \<noteq> None \<and> cert \<noteq> None \<and> flt \<noteq> None
            \<and> cq_certificate_builder_is_complete builder)
       \<and> (rc \<noteq> 0 \<longrightarrow> rc < 0 \<and> cert' = cert \<and> flt' = flt)
       \<and> (rc = 0 \<longrightarrow>
            (\<exists>b f c. builder = Some b \<and> flt = Some f
               \<and> c = \<lparr>magic = CQ_CERTIFICATE_MAGIC,
                       version = tool_version b,
                       timestamp = now env,
                       scope_symmetric_only = CQ_SCOPE_SYMMETRIC_ONLY,
                       cert_scope_format = scope_format b,
                       cert_source_model_hash = source_model_hash b,
                       cert_bn_folding_hash = bn_folding_hash b,
                       bn_folding_status = (if bn_folded b then 1 else 0),
                       cert_analysis_digest = hash_analysis_digest env (analysis_digest b),
                       cert_calibration_digest =
                         hash_calibration_digest env (calibration_digest b),
                       cert_verification_digest =
                         hash_verification_digest env (verification_digest b),
                       epsilon_0_claimed = ad_entry_error (analysis_digest b),
                       epsilon_total_claimed = ad_total_error_bound (analysis_digest b),
                       epsilon_max_measured =
                         vd_total_error_max_measured (verification_digest b),
                       cert_target_model_hash = target_model_hash b,
                       cert_target_param_count = target_param_count b,
                       cert_target_layer_count = target_layer_count b,
                       merkle_root = replicate 32 0,
                       signature = replicate 64 0\<rparr>
               \<and> cert' = Some (c\<lparr>merkle_root := hash_content env c\<rparr>)
               \<and> flt' = Some (cq_fault_merge f (b_faults b))))"
  using assms
  by (auto simp: cq_certificate_build_def CQ_ERROR_NULL_POINTER_def Let_def
      split: option.splits if_splits)

theorem cq_certificate_build_refusal_witness:
  "cq_certificate_build ex_platform (Some ((ex_builder no_faults)\<lparr>target_set := False\<rparr>))
      (Some zero_certificate) (Some no_faults) =
     (- 2, Some zero_certificate, Some no_faults)
   \<and> cq_certificate_build ex_platform (Some (ex_builder no_faults)) None (Some no_faults) =
     (- 1, None, Some no_faults)
   \<and> cq_certificate_build ex_platform (Some (ex_builder no_faults))
      (Some zero_certificate) (Some no_faults) =
     (0,
      Some \<lparr>magic = [0x43, 0x51, 0x43, 0x52], version = [0, 1, 0, 0],
            timestamp = 1700000000, scope_symmetric_only = 1, cert_scope_format = 0,
            cert_source_model_hash = replicate 32 0xAA,
            cert_bn_folding_hash = replicate 32 0xBB, bn_folding_status = 1,
            cert_analysis_digest = replicate 32 1, cert_calibration_digest = replicate 32 2,
            cert_verification_digest = replicate 32 3,
            epsilon_0_claimed = Finite (1 / 131072),
            epsilon_total_claimed = Finite (1 / 10000),
            epsilon_max_measured = Finite (2 / 10000),
            cert_target_model_hash = replicate 32 0xFF, cert_target_param_count = 100000,
            cert_target_layer_count = 5, merkle_root = replicate 32 4,
            signature = replicate 64 0\<rparr>,
      Some no_faults)"
proof -
  obtain c1 f1 where e1: "cq_certificate_build ex_platform
      (Some ((ex_builder no_faults)\<lparr>target_set := False\<rparr>))
      (Some zero_certificate) (Some no_faults) = (- 2, c1, f1)"
    by (simp add: cq_certificate_build_def cq_certificate_builder_is_complete_def ex_builder_def)
  obtain c2 f2 where e2: "cq_certificate_build ex_platform (Some (ex_builder no_faults)) None
      (Some no_faults) = (- 1, c2, f2)"
    by (simp add: cq_certificate_build_def CQ_ERROR_NULL_POINTER_def)
  obtain c3 f3 where e3: "cq_certificate_build ex_platform (Some (ex_builder no_faults))
      (Some zero_certificate) (Some no_faults) = (0, c3, f3)"
    by (simp add: cq_certificate_build_def cq_certificate_builder_is_complete_def ex_builder_def
        Let_def)
  have m: "cq_fault_merge no_faults no_faults = no_faults"
    by (simp add: cq_fault_merge_def no_faults_def)
  show ?thesis
    using cq_certificate_build_refusal [OF e1] cq_certificate_build_refusal [OF e2]
      cq_certificate_build_refusal [OF e3] e1 e2 e3 m
    by (simp add: ex_builder_def ex_platform_def CQ_CERTIFICATE_MAGIC_def
        CQ_SCOPE_SYMMETRIC_ONLY_def)
qed

text \<open>
  The claim as stated also has the build refused whenever a fatal flag is set
  in an input.  It is not: with every fatal flag set in the builder's fault
  set and in the caller's, a range veto in the calibration digest and a failed
  verification digest, the complete builder yields return code 0 and an
  assembled certificate.
\<close>

theorem cq_certificate_build_ignores_fatal_flags:
  "cq_certificate_builder_is_complete (Some (ex_builder all_faults))
   \<and> cq_has_fatal_fault (b_faults (ex_builder all_faults))
   \<and> cq_has_fatal_fault all_faults
   \<and> range_veto_status (calibration_digest (ex_builder all_faults)) = 1
   \<and> bounds_satisfied (verification_digest (ex_builder all_faults)) = 0
   \<and> fst (cq_certificate_build ex_platform (Some (ex_builder all_faults))
        (Some zero_certificate) (Some all_faults)) = 0
   \<and> magic (the (fst (snd (cq_certificate_build ex_platform (Some (ex_builder all_faults))
        (Some zero_certificate) (Some all_faults))))) = CQ_CERTIFICATE_MAGIC
   \<and> merkle_root (the (fst (snd (cq_certificate_build ex_platform (Some (ex_builder all_faults))
        (Some zero_certificate) (Some all_faults))))) = replicate 32 4"
  by (simp add: cq_certificate_build_def cq_certificate_builder_is_complete_def ex_builder_def
      cq_has_fatal_fault_def all_faults_def ex_platform_def Let_def)

section \<open>Verified properties: tenth percentile of the coverages\<close>

text \<open>With the repository's comparator the sort is the ascending sort.\<close>

lemma qsort_compare_asc: "qsort cq_float_compare_asc xs = sort xs"
proof -
  have ins: "insert_by cq_float_compare_asc x ys = insort x ys" for x ys
    by (induction ys) (auto simp: cq_float_compare_asc_def)
  show ?thesis
    unfolding qsort_def sort_key_def
    by (induction xs) (simp_all add: ins)
qed

lemma bitlen_le_48: "0 \<le> M \<Longrightarrow> M < 2 ^ 48 \<Longrightarrow> bitlen M \<le> 48"
  by (simp add: bitlen_le_iff_power)

text \<open>Rounding the exact product \<open>N * 0.1f\<close> never reaches the next integer.\<close>

lemma tenth_rounded:
  fixes N :: int
  assumes N: "0 \<le> N" "N < 2 ^ 24"
  defines "M \<equiv> N * 13421773"
  shows "(let a = round_to_float32 M (- 27)
          in if 0 \<le> snd a then fst a * 2 ^ nat (snd a) else fst a div 2 ^ nat (- snd a))
         = N div 10"
proof -
  define k r where "k = N div 10" and "r = N mod 10"
  have r: "0 \<le> r" "r \<le> 9" unfolding r_def by presburger+
  have N': "N < 16777216" using N by simp
  have k: "0 \<le> k" "k \<le> 1677721" using N(1) N' unfolding k_def by presburger+
  have Nkr: "N = 10 * k + r" by (simp add: k_def r_def)
  define F where "F = 2 * k + 13421773 * r"
  have F: "0 \<le> F" "F \<le> 124151399" using r k by (simp_all add: F_def)
  have M: "M = k * 2 ^ 27 + F" by (simp add: M_def Nkr F_def)
  have M0: "0 \<le> M" using N by (simp add: M_def)
  have M48: "M < 2 ^ 48" using N by (simp add: M_def)
  show ?thesis
  proof (cases "bitlen M \<le> 24")
    case True
    have "M div 2 ^ 27 = k"
      using F by (simp add: M div_pos_pos_trivial)
    then show ?thesis using True by (simp add: round_to_float32_def k_def)
  next
    case False
    define s where "s = nat (bitlen M - 24)"
    have s: "1 \<le> s" "s \<le> 24"
      using False bitlen_le_48 [OF M0 M48] by (simp_all add: s_def)
    define D D' :: int where "D = 2 ^ s" and "D' = 2 ^ (27 - s)"
    have DD: "D * D' = 2 ^ 27" using s by (simp add: D_def D'_def flip: power_add)
    have Dpos: "0 < D" "0 < D'" by (simp_all add: D_def D'_def)
    have Dle: "D \<le> 2 ^ 24" unfolding D_def using s(2) by (intro power_increasing) simp_all
    define m where "m = round_half_even M D"
    have near: "\<bar>2 * M - 2 * D * m\<bar> \<le> D"
      unfolding m_def using Dpos(1) by (rule round_half_even_nearest(1))
    have Mk: "M = D * (k * D') + F" using M DD by (simp add: algebra_simps)
    have lo: "k * D' \<le> m"
    proof -
      have "2 * (D * (k * D')) - D \<le> 2 * D * m" using near Mk F by linarith
      then have "D * (2 * (k * D') - 1) \<le> D * (2 * m)" by (simp add: algebra_simps)
      then have "2 * (k * D') - 1 \<le> 2 * m" using Dpos by (simp add: mult_le_cancel_left_pos)
      then show ?thesis by linarith
    qed
    have hi: "m < (k + 1) * D'"
    proof -
      have "2 * D * m \<le> 2 * M + D" using near by linarith
      also have "\<dots> < 2 * (D * (k * D')) + 2 * (D * D')"
      proof -
        have "D \<le> 16777216" "D * D' = 134217728" using Dle DD by simp_all
        then show ?thesis using Mk F by linarith
      qed
      also have "\<dots> = D * (2 * ((k + 1) * D'))" by (simp add: algebra_simps)
      finally have "D * (2 * m) < D * (2 * ((k + 1) * D'))" by (simp add: algebra_simps)
      then show ?thesis using Dpos by (simp add: mult_less_cancel_left_pos)
    qed
    have "m div D' = k"
    proof (rule int_div_pos_eq [where r = "m - k * D'"])
      show "m = D' * k + (m - k * D')" by (simp add: algebra_simps)
    qed (use lo hi in \<open>simp_all add: algebra_simps\<close>)
    moreover have "- 27 + int s < 0" "nat (27 - int s) = 27 - s" using s by simp_all
    ultimately show ?thesis
      using False by (simp add: round_to_float32_def Let_def s_def [symmetric] m_def [symmetric]
          D_def [symmetric] D'_def [symmetric] k_def [symmetric])
  qed
qed


lemma p10_index_below_2_24:
  fixes n :: uint32_t
  assumes "n \<noteq> 0" and "unat n < 2 ^ 24"
  shows "unat (p10_index n) = unat n div 10"
proof -
  have u0: "0 \<le> uint n" by simp
  have u: "uint n < 2 ^ 24"
    using assms(2) by (metis of_nat_less_numeral_power_cancel_iff of_nat_unat)
  have pos: "0 < uint n"
    using assms(1) by (meson linorder_not_less uint_le_0_iff unsigned_eq_0_iff)
  have bl: "bitlen (uint n) \<le> 24" using u0 u by (simp add: bitlen_le_iff_power)
  have f: "float_of_uint32 n = (uint n, 0)"
    using bl by (simp add: float_of_uint32_def round_to_float32_def)
  have idx: "uint32_of_float (float_mul (float_of_uint32 n) float_0_1) = word_of_int (uint n div 10)"
    using tenth_rounded [OF u0 u]
    by (simp add: f float_mul_def float_0_1_def uint32_of_float_def Let_def)
  have k: "0 \<le> uint n div 10" "uint n div 10 < uint n" "uint n div 10 < 2 ^ 32"
    using pos u by simp_all
  have uk: "uint (word_of_int (uint n div 10) :: 32 word) = uint n div 10"
    using k by (simp add: uint_word_of_int take_bit_int_eq_self)
  have lt: "\<not> n \<le> (word_of_int (uint n div 10) :: 32 word)"
    using k(2) by (simp add: word_le_def uk)
  have "p10_index n = word_of_int (uint n div 10)"
    using lt by (simp add: p10_index_def idx Let_def)
  then have e: "uint (p10_index n) = uint n div 10" using uk by simp
  have "int (unat n div 10) = uint n div 10"
    by (simp only: zdiv_int of_nat_unat of_nat_numeral)
  then have "int (unat (p10_index n)) = int (unat n div 10)"
    using e by (simp only: of_nat_unat)
  then show ?thesis by (simp only: of_nat_eq_iff)
qed

lemma p10_index_at_2_24:
  "p10_index 16777216 = 1677721" "p10_index 16777217 = 1677721" "p10_index 16777218 = 1677721"
  by (simp_all add: p10_index_def float_of_uint32_def float_mul_def float_0_1_def
      uint32_of_float_def round_to_float32_def round_half_even_def compute_bitlen Let_def)

lemma p10_index_exact:
  fixes n :: uint32_t
  assumes "n \<noteq> 0" and "unat n \<le> 16777218"
  shows "unat (p10_index n) = unat n div 10"
proof (cases "unat n < 2 ^ 24")
  case True
  with assms(1) show ?thesis by (rule p10_index_below_2_24)
next
  case False
  then have "unat n = 16777216 \<or> unat n = 16777217 \<or> unat n = 16777218"
    using assms(2) by auto
  then have "n = 16777216 \<or> n = 16777217 \<or> n = 16777218"
    by (metis of_nat_numeral of_nat_unat ucast_id)
  then show ?thesis
    using p10_index_at_2_24 by auto
qed

lemma global_coverage_p10_eq:
  assumes "tensors r = Some ts" and "tensor_count r \<noteq> 0"
  shows "map_option global_coverage_p10 (cq_calibration_compute_global_coverage True (Some r)) =
     Some (sort (map coverage_ratio (take (unat (tensor_count r)) ts))
             ! unat (p10_index (tensor_count r)))"
  using assms by (simp add: cq_calibration_compute_global_coverage_def Let_def qsort_compare_asc)

text \<open>
  Up to 16777218 tensors the index is \<open>\<lfloor>N / 10\<rfloor>\<close>, which lies in \<open>[0, N - 1]\<close>,
  and the tenth percentile is that element of the ascending coverages.
\<close>

lemma global_coverage_p10_exact:
  assumes "tensors r = Some ts" and "length ts = unat (tensor_count r)"
    and "1 \<le> length ts" and "length ts \<le> 16777218"
  shows "map_option global_coverage_p10 (cq_calibration_compute_global_coverage True (Some r)) =
     Some (sort (map coverage_ratio ts) ! (length ts div 10))"
    and "length ts div 10 \<le> length ts - 1"
proof -
  have nz: "tensor_count r \<noteq> 0" using assms(2,3) by (metis not_one_le_zero unat_0)
  show "map_option global_coverage_p10 (cq_calibration_compute_global_coverage True (Some r)) =
     Some (sort (map coverage_ratio ts) ! (length ts div 10))"
    using global_coverage_p10_eq [OF assms(1) nz] p10_index_exact [OF nz] assms(2,4)
    by simp
  show "length ts div 10 \<le> length ts - 1" using assms(3) by simp
qed

text \<open>
  Claim C8.  With the sort buffer available, \<open>global_coverage_p10\<close> is meant to
  be the element at index \<open>\<lfloor>0.10 * N\<rfloor>\<close> of the ascending coverages.  The code
  computes the index in single precision, \<open>(uint32_t)((float)n * 0.1f)\<close>.  For
  every \<open>N\<close> from 1 to 16777218 that is \<open>\<lfloor>N / 10\<rfloor>\<close>
  (\<open>global_coverage_p10_exact\<close>).  At \<open>N = 16777219 = 2^24 + 3\<close> the conversion
  \<open>(float)n\<close> rounds to 16777220, the product with \<open>0.1f\<close> rounds to 1677722,
  and the code reads the element at index 1677722 instead of 1677721: for
  1677722 tensors of coverage 0 and 15099497 tensors of coverage 1 it stores 1,
  where the element at index \<open>\<lfloor>N / 10\<rfloor>\<close> of the ascending coverages is 0.
\<close>

theorem global_coverage_p10_float_index:
  "unat (tensor_count (ex_calibration_report 1677722 15099497)) = 16777219
   \<and> length (the (tensors (ex_calibration_report 1677722 15099497))) = 16777219
   \<and> p10_index 16777219 = 1677722
   \<and> (16777219 :: nat) div 10 = 1677721
   \<and> map_option global_coverage_p10
        (cq_calibration_compute_global_coverage True
           (Some (ex_calibration_report 1677722 15099497))) = Some 1
   \<and> sort (map coverage_ratio (the (tensors (ex_calibration_report 1677722 15099497))))
        ! (16777219 div 10) = 0"
proof -
  let ?r = "ex_calibration_report 1677722 15099497"
  let ?cs = "replicate 1677722 (0 :: real) @ replicate 15099497 1"
  have tc: "tensor_count ?r = 16777219" by (simp add: ex_calibration_report_def)
  have idx: "p10_index 16777219 = 1677722"
    by (simp add: p10_index_def float_of_uint32_def float_mul_def float_0_1_def
        uint32_of_float_def round_to_float32_def round_half_even_def compute_bitlen Let_def)
  have cs: "map coverage_ratio (the (tensors ?r)) = ?cs"
    by (simp add: ex_calibration_report_def)
  have srt: "sort ?cs = ?cs"
    by (rule sorted_sort_id) (simp add: sorted_append)
  have ts: "tensors ?r = Some (the (tensors ?r))" by (simp add: ex_calibration_report_def)
  have len: "length (the (tensors ?r)) = 16777219" by (simp add: ex_calibration_report_def)
  have nz: "tensor_count ?r \<noteq> 0" by (simp add: tc)
  have "map_option global_coverage_p10 (cq_calibration_compute_global_coverage True (Some ?r))
      = Some (?cs ! 1677722)"
    using global_coverage_p10_eq [OF ts nz] len by (simp add: tc idx cs srt)
  moreover have "?cs ! 1677722 = 1" by (simp add: nth_append)
  moreover have "?cs ! 1677721 = 0" by (simp add: nth_append)
  ultimately show ?thesis
    using tc idx len by (simp add: cs srt)
qed

end
